theory Spec2Isabelle
  imports Complex_Main
begin

section \<open>Python values, exceptions and small library functions\<close>

text \<open>
  The add-on is Python code driving a host application. Its objects are modelled as
  records, its mutations as explicit state passing and its exceptions as values: a call
  that can raise yields an \<open>outcome\<close> together with the state reached when the
  exception left the function (mutations made before a \<open>raise\<close> persist).
  Python floats are idealised as reals.
\<close>

datatype exn =
    ValueError string
  | RuntimeError string
  | TypeError
  | AttributeError
  | ReferenceError
  | KeyError string
  | IndexError
  | ZeroDivisionError
  | OSError string

datatype 'a outcome = Returned 'a | Raised exn

type_synonym vec = "real \<times> real \<times> real"

text \<open>\<open>str(i)\<close> for an integer, as the f-strings of the add-on format it.\<close>

function str_pos :: "int \<Rightarrow> string" where
  "str_pos n =
     (if n < 10 then [''0123456789'' ! nat n]
      else str_pos (n div 10) @ [''0123456789'' ! nat (n mod 10)])"
  by pat_completeness auto
termination
  by (relation "measure nat") auto

declare str_pos.simps [simp del]

definition str_int :: "int \<Rightarrow> string" where
  "str_int i = (if i < 0 then CHR ''-'' # str_pos (- i) else str_pos i)"

text \<open>\<open>os.path.join\<close> on two components (POSIX rules).\<close>

definition path_join :: "string \<Rightarrow> string \<Rightarrow> string" where
  "path_join a b =
     (if b \<noteq> [] \<and> hd b = CHR ''/'' then b
      else if a = [] \<or> last a = CHR ''/'' then a @ b
      else a @ ''/'' @ b)"

section \<open>ProjectionSettings (utils/settings.py)\<close>

record ProjectionSettings =
  resolution :: int
  uv_map_name :: string
  image_name :: string
  camera_name :: string
  seam_bleed :: int
  angle_offset :: real
  render_view_prefix :: string
  output_folder :: string
  temp_folder :: string

text \<open>The dataclass constructor as the bake operator calls it: four keyword arguments,
  the other fields at their defaults.\<close>

definition new_ProjectionSettings :: "int \<Rightarrow> string \<Rightarrow> string \<Rightarrow> int \<Rightarrow> ProjectionSettings" where
  "new_ProjectionSettings res img out bleed =
     \<lparr> resolution = res, uv_map_name = ''Bake_UV'', image_name = img,
       camera_name = ''BakeCamera'', seam_bleed = bleed, angle_offset = 30,
       render_view_prefix = ''EEVEE Bake Test_Model'', output_folder = out,
       temp_folder = ''temp_renders'' \<rparr>"


section \<open>The host application and the operating system\<close>

text \<open>
  The host (the 3D application and the file system) is a state the add-on reads and
  writes through the scripting interface. Host data the add-on reads back is modelled by
  typed fields; host attributes it only assigns are kept in one store \<open>attrs\<close>
  from attribute paths to values. Host references (objects, images, materials, areas,
  timers) are the names or indices the host identifies them by; a material is its index
  in \<open>bpy.data.materials\<close>. Host operators whose effect the add-on never reads
  back are recorded in \<open>host_ops\<close>.

  Exceptions are modelled where the source raises them itself, where Python raises on a
  modelled state (\<open>None\<close> dereferenced, a missing key, an empty sequence, a zero
  divisor), and where the source wraps a host or file-system call in a handler of its
  own: removing a file or a directory, creating directories, rendering, projecting.
  For those calls the host state says which of them fail.
\<close>

datatype pyval = PNone | PBool bool | PInt int | PReal real | PStr string | PPair int int

datatype target = Scene | Area nat | ObjData string | ImagePaint | Image string | Node nat string

text \<open>\<open>scene.eevee_baker\<close>: the property group of properties/baker_properties.py.\<close>

record baker_props =
  quality_preset :: string
  show_bake :: bool
  force_new_uv :: bool
  should_cancel :: bool
  output_directory :: string
  file_name :: string
  auto_bake :: bool
  p_resolution :: int
  p_seam_bleed :: int
  progress :: int
  total_steps :: int
  is_baking :: bool

text \<open>The add-on preferences read by the bake operator.\<close>

record preferences =
  fast_taa_samples :: int
  fast_shadow_size :: string
  balanced_taa_samples :: int
  balanced_shadow_size :: string
  high_taa_samples :: int
  high_shadow_size :: string

text \<open>A screen area: its type and the types of its regions.\<close>

record area =
  area_type :: string
  region_types :: "string list"

text \<open>A node of a material's node tree and a link between two sockets. An input
  socket is named (\<open>inputs['Surface']\<close>) or indexed (\<open>inputs[0]\<close>).\<close>

record node =
  node_name :: string
  node_type :: string
  n_outputs :: nat

datatype socket = SockName string | SockIdx nat

record link =
  from_node :: string
  from_socket :: nat
  to_node :: string
  to_socket :: socket

record material =
  use_nodes :: bool
  nodes :: "node list"
  links :: "link list"
  original_connection :: "(string \<times> nat) option"

text \<open>An object of the scene: a mesh (with UV layers, material slots and a bounding
  box) or a camera (with a field of view). The rotation of a camera is kept as the
  direction it was aimed along.\<close>

type_synonym matrix = "(real \<times> real \<times> real \<times> real) \<times> (real \<times> real \<times> real \<times> real) \<times> (real \<times> real \<times> real \<times> real)"

record object =
  o_type :: string
  o_mode :: string
  uv_layers :: "string list"
  materials :: "nat list"
  bound_box :: "vec list"
  matrix_world :: matrix
  location :: vec
  aim :: vec
  cam_angle :: real

record world =
  props :: baker_props
  addons :: "string \<rightharpoonup> preferences option"
  attrs :: "target \<times> string \<rightharpoonup> pyval"
  images :: "string list"
  files :: "string list"
  dirs :: "string list"
  os_error :: "string \<times> string \<rightharpoonup> string"
  blend_filepath :: string
  app_tempdir :: string
  abspath :: "string \<Rightarrow> string"
  relpath :: "string \<Rightarrow> string"
  areas :: "area list"
  objects :: "string \<rightharpoonup> object"
  active_object :: "string option"
  scene_camera :: "string option"
  mats :: "material list"
  camera_template :: object
  timers :: "(nat \<times> real) list"
  next_timer :: nat
  modal_handlers :: nat
  now :: int
  render_secs :: int
  render_error :: "string option"
  render_writes :: bool
  project_error :: "string option"
  host_ops :: "string list"
  painted :: "(string \<times> string) list"
  saved :: "string list"
  stdout :: "string list"
  reports :: "(string \<times> string) list"

definition set_attr :: "target \<Rightarrow> string \<Rightarrow> pyval \<Rightarrow> world \<Rightarrow> world" where
  "set_attr t a v w = w\<lparr>attrs := (attrs w)((t, a) \<mapsto> v)\<rparr>"

definition print :: "string \<Rightarrow> world \<Rightarrow> world" where
  "print line w = w\<lparr>stdout := stdout w @ [line]\<rparr>"

definition str_exn :: "exn \<Rightarrow> string" where
  "str_exn e = (case e of
      ValueError m \<Rightarrow> m | RuntimeError m \<Rightarrow> m | KeyError m \<Rightarrow> m | OSError m \<Rightarrow> m
    | TypeError \<Rightarrow> ''TypeError'' | AttributeError \<Rightarrow> ''AttributeError''
    | ReferenceError \<Rightarrow> ''ReferenceError'' | IndexError \<Rightarrow> ''IndexError''
    | ZeroDivisionError \<Rightarrow> ''float division by zero'')"

text \<open>\<open>os.path.dirname\<close> (POSIX) and a directory listing: the entries below a
  directory.\<close>

definition dirname :: "string \<Rightarrow> string" where
  "dirname p =
     (let h = rev (dropWhile (\<lambda>c. c \<noteq> CHR ''/'') (rev p))
      in if h \<noteq> [] \<and> (\<exists>c \<in> set h. c \<noteq> CHR ''/'')
         then rev (dropWhile (\<lambda>c. c = CHR ''/'') (rev h)) else h)"

definition listdir :: "string \<Rightarrow> world \<Rightarrow> string list" where
  "listdir d w = filter (\<lambda>f. f \<noteq> d \<and> take (length d + 1) f = d @ ''/'') (files w @ dirs w)"


definition path_exists :: "string \<Rightarrow> world \<Rightarrow> bool" where
  "path_exists p w = (p \<in> set (files w) \<or> p \<in> set (dirs w))"

definition makedirs :: "string \<Rightarrow> world \<Rightarrow> unit outcome \<times> world" where
  "makedirs d w =
     (case os_error w (''makedirs'', d) of
        Some m \<Rightarrow> (Raised (OSError m), w)
      | None \<Rightarrow> (Returned (), w\<lparr>dirs := List.insert d (dirs w)\<rparr>))"

definition os_remove :: "string \<Rightarrow> world \<Rightarrow> unit outcome \<times> world" where
  "os_remove p w =
     (case os_error w (''remove'', p) of
        Some m \<Rightarrow> (Raised (OSError m), w)
      | None \<Rightarrow>
          if p \<in> set (files w) then (Returned (), w\<lparr>files := removeAll p (files w)\<rparr>)
          else (Raised (OSError ''not a file''), w))"

definition os_rmdir :: "string \<Rightarrow> world \<Rightarrow> unit outcome \<times> world" where
  "os_rmdir d w =
     (case os_error w (''rmdir'', d) of
        Some m \<Rightarrow> (Raised (OSError m), w)
      | None \<Rightarrow>
          if d \<in> set (dirs w) then (Returned (), w\<lparr>dirs := removeAll d (dirs w)\<rparr>)
          else (Raised (OSError ''not a directory''), w))"

text \<open>\<open>bpy.data.images.remove\<close> and \<open>bpy.data.batch_remove\<close> on images.\<close>

definition batch_remove :: "string list \<Rightarrow> world \<Rightarrow> world" where
  "batch_remove ns w = w\<lparr>images := filter (\<lambda>n. n \<notin> set ns) (images w)\<rparr>"

text \<open>\<open>bpy.ops.object.mode_set\<close>: the mode of the active object.\<close>

definition mode_set :: "string \<Rightarrow> world \<Rightarrow> world" where
  "mode_set m w =
     (case active_object w of
        None \<Rightarrow> w
      | Some n \<Rightarrow>
          (case objects w n of
             None \<Rightarrow> w
           | Some ob \<Rightarrow> w\<lparr>objects := (objects w)(n \<mapsto> ob\<lparr>o_mode := m\<rparr>)\<rparr>))"

section \<open>TextureProjector (utils/projector.py)\<close>

text \<open>The key under which \<open>memoize\<close> (utils/functions.py) files a call: the
  positional arguments after \<open>self\<close> and the set of keyword items. The only
  argument of the two memoized methods is the view type, \<open>None\<close> or a string.\<close>

type_synonym call_key = "string option list \<times> (string \<times> string option) set"

record original_entry =
  entry_nodes :: "(string \<times> string) list"
  output_connection :: "string option"

record TextureProjector =
  settings :: ProjectionSettings
  obj :: "string option"
  bake_image :: "string option"
  camera :: "string option"
  temp_files :: "(string \<times> string) list"
  original_nodes :: "nat \<rightharpoonup> original_entry"
  output_dir :: string
  temp_dir :: string
  view3d_cache :: "nat option"
  aspect_ratio :: real
  distance_cache :: "call_key \<rightharpoonup> real"
  view_cache :: "call_key \<rightharpoonup> real \<times> real \<times> vec"

definition set_attrs :: "target \<Rightarrow> (string \<times> pyval) list \<Rightarrow> world \<Rightarrow> world" where
  "set_attrs t kvs w = fold (\<lambda>kv. set_attr t (fst kv) (snd kv)) kvs w"

definition optimize_eevee :: "world \<Rightarrow> world" where
  "optimize_eevee w =
     set_attrs Scene
       [(''eevee.taa_render_samples'', PInt 8),
        (''eevee.use_taa_reprojection'', PBool True),
        (''eevee.use_ssr'', PBool False),
        (''eevee.use_ssr_refraction'', PBool False),
        (''eevee.use_gtao'', PBool False),
        (''eevee.use_bloom'', PBool False),
        (''eevee.use_motion_blur'', PBool False),
        (''eevee.shadow_cube_size'', PStr ''512''),
        (''eevee.shadow_cascade_size'', PStr ''512'')] w"

definition optimize_area :: "nat \<Rightarrow> world \<Rightarrow> world" where
  "optimize_area i w =
     (if area_type (areas w ! i) = ''VIEW_3D''
      then set_attrs (Area i)
             [(''shading.show_shadows'', PBool False),
              (''overlay.show_overlays'', PBool False)] w
      else w)"

definition optimize_render_settings :: "world \<Rightarrow> world" where
  "optimize_render_settings w =
     (let w1 = optimize_eevee w in fold optimize_area [0..<length (areas w1)] w1)"

definition setup_directories ::
  "ProjectionSettings \<Rightarrow> world \<Rightarrow> (string \<times> string) outcome \<times> world" where
  "setup_directories st w =
     (let base_dir = (if blend_filepath w \<noteq> [] then dirname (blend_filepath w)
                      else app_tempdir w);
          out = path_join base_dir (output_folder st);
          tmp = path_join base_dir (temp_folder st)
      in case makedirs out w of
           (Raised e, w1) \<Rightarrow>
             (Raised (RuntimeError (''Failed to setup directories: '' @ str_exn e)), w1)
         | (Returned _, w1) \<Rightarrow>
             (case makedirs tmp w1 of
                (Raised e, w2) \<Rightarrow>
                  (Raised (RuntimeError (''Failed to setup directories: '' @ str_exn e)), w2)
              | (Returned _, w2) \<Rightarrow> (Returned (out, tmp), w2)))"

text \<open>\<open>TextureProjector.__init__\<close>.\<close>

definition new_TextureProjector ::
  "ProjectionSettings \<Rightarrow> world \<Rightarrow> TextureProjector outcome \<times> world" where
  "new_TextureProjector st w =
     (case setup_directories st w of
        (Raised e, w1) \<Rightarrow> (Raised e, w1)
      | (Returned (out, tmp), w1) \<Rightarrow>
          (Returned \<lparr> settings = st, obj = None, bake_image = None, camera = None,
                      temp_files = [], original_nodes = Map.empty, output_dir = out,
                      temp_dir = tmp, view3d_cache = None, aspect_ratio = 1,
                      distance_cache = Map.empty, view_cache = Map.empty \<rparr>,
           optimize_render_settings w1))"

text \<open>The context manager \<open>view3d_context\<close>: the area it yields, cached on the
  projector; it raises when the screen has no 3D viewport.\<close>

definition view3d_context :: "TextureProjector \<Rightarrow> world \<Rightarrow> nat outcome \<times> TextureProjector" where
  "view3d_context self w =
     (case view3d_cache self of
        Some a \<Rightarrow> (Returned a, self)
      | None \<Rightarrow>
          (case find (\<lambda>i. area_type (areas w ! i) = ''VIEW_3D'') [0..<length (areas w)] of
             Some a \<Rightarrow> (Returned a, self\<lparr>view3d_cache := Some a\<rparr>)
           | None \<Rightarrow> (Raised (RuntimeError ''No 3D viewport found''), self)))"

text \<open>The context manager \<open>object_mode\<close>, as its entry (which yields the mode to
  restore) and its exit (the \<open>finally\<close> block).\<close>

definition object_mode_enter :: "TextureProjector \<Rightarrow> string \<Rightarrow> world \<Rightarrow> string outcome \<times> world" where
  "object_mode_enter self mode w =
     (case obj self of
        None \<Rightarrow> (Raised (ValueError ''No active object''), w)
      | Some n \<Rightarrow>
          (case objects w n of
             None \<Rightarrow> (Raised ReferenceError, w)
           | Some ob \<Rightarrow>
               (Returned (o_mode ob), if o_mode ob \<noteq> mode then mode_set mode w else w)))"

definition object_mode_exit :: "string \<Rightarrow> string \<Rightarrow> world \<Rightarrow> world" where
  "object_mode_exit original_mode mode w =
     (if original_mode \<noteq> mode then mode_set original_mode w else w)"

definition cleanup_render_view_image :: "string \<Rightarrow> world \<Rightarrow> world" where
  "cleanup_render_view_image name w =
     (if name \<in> set (images w) then batch_remove [name] w else w)"

text \<open>\<open>cleanup\<close>: one pass of its loop over \<open>temp_files\<close>, then the whole
  method. The loop collects the images to remove and deletes the files; a failure on one
  entry is printed and the loop goes on.\<close>

definition cleanup_entry :: "string \<times> string \<Rightarrow> string list \<times> world \<Rightarrow> string list \<times> world" where
  "cleanup_entry entry acc =
     (case entry of (iname, tpath) \<Rightarrow>
      (case acc of (rm, w) \<Rightarrow>
        (let found = (iname \<in> set (images w));
             rm1 = (if found then rm @ [iname] else rm);
             w1 = (if found then set_attr (Image iname) ''use_fake_user'' (PBool False) w
                   else w)
         in if path_exists tpath w1
            then (case os_remove tpath w1 of
                    (Raised e, w2) \<Rightarrow>
                      (rm1, print (''Error cleaning up '' @ iname @ '': '' @ str_exn e) w2)
                  | (Returned _, w2) \<Rightarrow> (rm1, w2))
            else (rm1, w1))))"

definition cleanup :: "TextureProjector \<Rightarrow> world \<Rightarrow> TextureProjector \<times> world" where
  "cleanup self w =
     (let w0 = print ''Cleaning up resources...'' w;
          (rm, w1) = fold cleanup_entry (temp_files self) ([], w0);
          w2 = (if rm \<noteq> [] then batch_remove rm w1 else w1);
          self1 = self\<lparr>temp_files := []\<rparr>;
          w3 = (if path_exists (temp_dir self1) w2
                then (if temp_dir self1 \<in> set (dirs w2)
                      then (if listdir (temp_dir self1) w2 = []
                            then (case os_rmdir (temp_dir self1) w2 of
                                    (Raised e, u) \<Rightarrow>
                                      print (''Error removing temp directory: '' @ str_exn e) u
                                  | (Returned _, u) \<Rightarrow> u)
                            else w2)
                      else print ''Error removing temp directory: not a directory'' w2)
                else w2)
      in (self1, w3))"

text \<open>The name the host gives a new datablock: the wanted name, or the first of
  \<open>name.001\<close>, \<open>name.002\<close>, ... that is free.\<close>

definition numbered :: "string \<Rightarrow> nat \<Rightarrow> string" where
  "numbered name k =
     name @ ''.'' @ (if k < 10 then ''00'' else if k < 100 then ''0'' else []) @ str_int (int k)"

definition unique_name :: "string \<Rightarrow> string list \<Rightarrow> string" where
  "unique_name name taken =
     (if name \<notin> set taken then name
      else case find (\<lambda>c. c \<notin> set taken) (map (numbered name) [1..<length taken + 2]) of
             Some c \<Rightarrow> c | None \<Rightarrow> name)"

definition host_op :: "string \<Rightarrow> world \<Rightarrow> world" where
  "host_op name w = w\<lparr>host_ops := host_ops w @ [name]\<rparr>"

text \<open>\<open>create_uv_map\<close>.\<close>

definition create_uv_map :: "TextureProjector \<Rightarrow> world \<Rightarrow> unit outcome \<times> world" where
  "create_uv_map self w =
     (let w0 = w\<lparr>active_object := obj self\<rparr>
      in case obj self of
           None \<Rightarrow> (Raised AttributeError, w0)
         | Some n \<Rightarrow>
             (case objects w0 n of
                None \<Rightarrow> (Raised ReferenceError, w0)
              | Some ob \<Rightarrow>
                  (let uv = uv_map_name (settings self)
                   in if uv \<notin> set (uv_layers ob) \<or> force_new_uv (props w0)
                      then
                        (let w1 = w0\<lparr>objects := (objects w0)
                                     (n \<mapsto> ob\<lparr>uv_layers := removeAll uv (uv_layers ob) @ [uv]\<rparr>)\<rparr>;
                             w2 = set_attr (ObjData n) ''uv_layers.active'' (PStr uv) w1
                         in case object_mode_enter self ''EDIT'' w2 of
                              (Raised e, w3) \<Rightarrow> (Raised e, w3)
                            | (Returned original_mode, w3) \<Rightarrow>
                                (Returned (),
                                 object_mode_exit original_mode ''EDIT''
                                   (host_op ''uv.unwrap'' (host_op ''mesh.select_all'' w3))))
                      else (Returned (), w0))))"

text \<open>\<open>create_bake_image\<close>: the image it returns.\<close>

definition configure_bake_image :: "TextureProjector \<Rightarrow> string \<Rightarrow> string \<Rightarrow> world \<Rightarrow> world" where
  "configure_bake_image self name raw_path w =
     set_attrs (Image name)
       [(''width'', PInt (resolution (settings self))),
        (''height'', PInt (resolution (settings self))),
        (''alpha'', PBool True),
        (''float_buffer'', PBool False),
        (''generated_color'', PPair 0 0),
        (''filepath_raw'', PStr raw_path),
        (''file_format'', PStr ''PNG'')] w"

definition create_bake_image :: "TextureProjector \<Rightarrow> world \<Rightarrow> string \<times> world" where
  "create_bake_image self w =
     (let name = image_name (settings self)
      in if name \<in> set (images w) \<and> \<not> auto_bake (props w) then (name, w)
         else
           (let w1 = (if name \<in> set (images w) then cleanup_render_view_image name w else w);
                w2 = w1\<lparr>images := images w1 @ [name]\<rparr>;
                img_path = path_join (output_dir self) (name @ ''.png'')
            in (name, configure_bake_image self name (relpath w2 img_path) w2)))"

text \<open>\<open>setup_material_nodes\<close>. Giving a material a node tree for the first time
  makes the host fill it with its default surface shader.\<close>

definition default_nodes :: "node list" where
  "default_nodes =
     [\<lparr>node_name = ''Principled BSDF'', node_type = ''BSDF_PRINCIPLED'', n_outputs = 1\<rparr>,
      \<lparr>node_name = ''Material Output'', node_type = ''OUTPUT_MATERIAL'', n_outputs = 0\<rparr>]"

definition default_links :: "link list" where
  "default_links =
     [\<lparr>from_node = ''Principled BSDF'', from_socket = 0, to_node = ''Material Output'',
       to_socket = SockName ''Surface''\<rparr>]"

definition new_material :: material where
  "new_material = \<lparr>use_nodes = False, nodes = [], links = [], original_connection = None\<rparr>"

definition set_use_nodes :: "material \<Rightarrow> material" where
  "set_use_nodes m =
     (if \<not> use_nodes m \<and> nodes m = []
      then m\<lparr>use_nodes := True, nodes := default_nodes, links := default_links\<rparr>
      else m\<lparr>use_nodes := True\<rparr>)"

definition nodes_get :: "string \<Rightarrow> material \<Rightarrow> node option" where
  "nodes_get name m = find (\<lambda>n. node_name n = name) (nodes m)"

definition surface_links :: "material \<Rightarrow> link list" where
  "surface_links m =
     filter (\<lambda>l. to_node l = ''Material Output'' \<and> to_socket l = SockName ''Surface'') (links m)"

definition links_new :: "link \<Rightarrow> link list \<Rightarrow> link list" where
  "links_new l ls =
     filter (\<lambda>x. \<not> (to_node x = to_node l \<and> to_socket x = to_socket l)) ls @ [l]"

definition capture_original :: "material \<Rightarrow> original_entry" where
  "capture_original m =
     \<lparr> entry_nodes = map (\<lambda>n. (node_name n, node_type n)) (nodes m),
       output_connection =
         (case nodes_get ''Material Output'' m of
            None \<Rightarrow> None
          | Some _ \<Rightarrow> (case surface_links m of [] \<Rightarrow> None | l # _ \<Rightarrow> Some (from_node l))) \<rparr>"

text \<open>The material the method works on: the first slot of the object, or a new
  material appended to an object that has none.\<close>

definition first_material :: "string \<Rightarrow> object \<Rightarrow> world \<Rightarrow> nat \<times> world" where
  "first_material n ob w =
     (case materials ob of
        [] \<Rightarrow> (length (mats w),
                 w\<lparr>mats := mats w @ [new_material],
                   objects := (objects w)(n \<mapsto> ob\<lparr>materials := [length (mats w)]\<rparr>)\<rparr>)
      | i # _ \<Rightarrow> (i, w))"

text \<open>The bake nodes: a UV map node and an image texture node, created when the tree
  has no node of that name, and the link between them, created when it is missing.\<close>

definition bake_uv_node :: node where
  "bake_uv_node = \<lparr>node_name = ''Bake_UV'', node_type = ''UVMAP'', n_outputs = 1\<rparr>"

definition bake_texture_node :: node where
  "bake_texture_node = \<lparr>node_name = ''Bake_Texture'', node_type = ''TEX_IMAGE'', n_outputs = 2\<rparr>"

definition bake_uv_link :: link where
  "bake_uv_link = \<lparr>from_node = ''Bake_UV'', from_socket = 0, to_node = ''Bake_Texture'',
                    to_socket = SockIdx 0\<rparr>"

definition add_bake_nodes :: "material \<Rightarrow> material" where
  "add_bake_nodes m0 =
     (let m1 = (if nodes_get ''Bake_UV'' m0 = None then m0\<lparr>nodes := nodes m0 @ [bake_uv_node]\<rparr>
                else m0);
          m2 = (if nodes_get ''Bake_Texture'' m0 = None
                then m1\<lparr>nodes := nodes m1 @ [bake_texture_node]\<rparr> else m1)
      in if \<not> (\<exists>l \<in> set (links m2). from_node l = ''Bake_UV'' \<and> to_node l = ''Bake_Texture'')
         then m2\<lparr>links := links_new bake_uv_link (links m2)\<rparr>
         else m2)"

definition configure_bake_nodes :: "TextureProjector \<Rightarrow> nat \<Rightarrow> material \<Rightarrow> world \<Rightarrow> world" where
  "configure_bake_nodes self mat m0 w =
     (let w1 = (if nodes_get ''Bake_UV'' m0 = None
                then set_attrs (Node mat ''Bake_UV'')
                       [(''uv_map'', PStr (uv_map_name (settings self))),
                        (''location'', PPair (-600) 0)] w
                else w);
          w2 = set_attr (Node mat ''Bake_Texture'') ''image''
                 (case bake_image self of None \<Rightarrow> PNone | Some b \<Rightarrow> PStr b) w1;
          w3 = (if nodes_get ''Bake_Texture'' m0 = None
                then set_attr (Node mat ''Bake_Texture'') ''location'' (PPair (-300) 0) w2
                else w2)
      in set_attr (Node mat []) ''nodes.active'' PNone w3)"

definition setup_material_nodes ::
  "TextureProjector \<Rightarrow> world \<Rightarrow> unit outcome \<times> TextureProjector \<times> world" where
  "setup_material_nodes self w =
     (case obj self of
        None \<Rightarrow> (Raised AttributeError, self, w)
      | Some n \<Rightarrow>
          (case objects w n of
             None \<Rightarrow> (Raised ReferenceError, self, w)
           | Some ob \<Rightarrow>
               (case first_material n ob w of
                  (mat, w1) \<Rightarrow>
                    if \<not> mat < length (mats w1) then (Raised ReferenceError, self, w1)
                    else
                      (let m0 = set_use_nodes (mats w1 ! mat);
                           self1 = (if original_nodes self mat = None
                                    then self\<lparr>original_nodes :=
                                           (original_nodes self)(mat \<mapsto> capture_original m0)\<rparr>
                                    else self)
                       in (Returned (), self1,
                           configure_bake_nodes self mat m0
                             (w1\<lparr>mats := (mats w1)[mat := add_bake_nodes m0]\<rparr>))))))"

text \<open>\<open>setup_camera\<close>: a camera of the configured name replaces any object of
  that name and becomes the active object.\<close>

definition configure_camera :: "TextureProjector \<Rightarrow> string \<Rightarrow> world \<Rightarrow> world" where
  "configure_camera self cname w =
     set_attrs Scene
       [(''render.pixel_aspect_x'', PInt 1), (''render.pixel_aspect_y'', PInt 1),
        (''render.resolution_x'', PInt (resolution (settings self))),
        (''render.resolution_y'', PInt (resolution (settings self)))]
       (set_attrs (ObjData cname)
          [(''sensor_fit'', PStr ''HORIZONTAL''), (''sensor_width'', PInt 36),
           (''sensor_height'', PInt 36)] w)"

definition setup_camera :: "TextureProjector \<Rightarrow> world \<Rightarrow> TextureProjector \<times> world" where
  "setup_camera self w =
     (let cname = camera_name (settings self);
          w1 = w\<lparr>objects := (objects w)(cname \<mapsto> camera_template w),
                 active_object := Some cname\<rparr>
      in (self\<lparr>camera := Some cname\<rparr>, configure_camera self cname w1))"

section \<open>memoize (utils/functions.py) and the camera geometry\<close>

text \<open>
  \<open>memoize\<close> keeps one cache per decorated function and per instance (a
  \<open>WeakKeyDictionary\<close> keyed by \<open>self\<close>); here the cache of an instance is
  passed in and returned. A call is filed under its positional arguments and the set of
  its keyword items. A call that raises stores nothing.
\<close>

definition memoize ::
  "('s \<Rightarrow> string option list \<Rightarrow> (string \<times> string option) list \<Rightarrow> 'v outcome) \<Rightarrow>
   (call_key \<rightharpoonup> 'v) \<Rightarrow> 's \<Rightarrow> string option list \<Rightarrow> (string \<times> string option) list \<Rightarrow>
   'v outcome \<times> (call_key \<rightharpoonup> 'v)" where
  "memoize func cache self args kwargs =
     (let key = (args, set kwargs)
      in case cache key of
           Some v \<Rightarrow> (Returned v, cache)
         | None \<Rightarrow>
             (case func self args kwargs of
                Raised e \<Rightarrow> (Raised e, cache)
              | Returned v \<Rightarrow> (Returned v, cache(key \<mapsto> v))))"

text \<open>Python binding the arguments of a call to the one parameter \<open>view_type\<close>.\<close>

definition bind_view_type ::
  "string option list \<Rightarrow> (string \<times> string option) list \<Rightarrow> string option outcome" where
  "bind_view_type args kwargs =
     (case (args, kwargs) of
        ([v], []) \<Rightarrow> Returned v
      | ([], [(k, v)]) \<Rightarrow> if k = ''view_type'' then Returned v else Raised TypeError
      | _ \<Rightarrow> Raised TypeError)"

definition transform :: "matrix \<Rightarrow> vec \<Rightarrow> vec" where
  "transform m v =
     (case m of (r1, r2, r3) \<Rightarrow>
      (case v of (x, y, z) \<Rightarrow>
        (let row = (\<lambda>r. case r of (a, b, c, d) \<Rightarrow> a * x + b * y + c * z + d)
         in (row r1, row r2, row r3))))"

definition bbox_corners :: "object \<Rightarrow> vec list" where
  "bbox_corners ob = map (transform (matrix_world ob)) (bound_box ob)"

text \<open>The componentwise minimum and maximum of the corners; Python's \<open>min\<close> and
  \<open>max\<close> raise on an empty sequence.\<close>

definition bounds :: "vec list \<Rightarrow> (vec \<times> vec) option" where
  "bounds cs =
     (case cs of
        [] \<Rightarrow> None
      | c # rest \<Rightarrow>
          Some (fold (\<lambda>p lo. (min (fst p) (fst lo), min (fst (snd p)) (fst (snd lo)),
                               min (snd (snd p)) (snd (snd lo)))) rest c,
                fold (\<lambda>p hi. (max (fst p) (fst hi), max (fst (snd p)) (fst (snd hi)),
                               max (snd (snd p)) (snd (snd hi)))) rest c))"

text \<open>The body of \<open>calculate_optimal_distance\<close>, before memoization. The state it
  reads is the projector and the host.\<close>

definition calculate_optimal_distance_body ::
  "TextureProjector \<times> world \<Rightarrow> string option list \<Rightarrow> (string \<times> string option) list \<Rightarrow> real outcome" where
  "calculate_optimal_distance_body sw args kwargs =
     (case sw of (self, w) \<Rightarrow>
      (case bind_view_type args kwargs of
         Raised e \<Rightarrow> Raised e
       | Returned view_type \<Rightarrow>
           (case obj self of
              None \<Rightarrow> Returned 2
            | Some n \<Rightarrow>
                (case objects w n of
                   None \<Rightarrow> Raised ReferenceError
                 | Some ob \<Rightarrow>
                     (case bounds (bbox_corners ob) of
                        None \<Rightarrow> Raised (ValueError ''max() arg is an empty sequence'')
                      | Some (lo, hi) \<Rightarrow>
                          (let dx = fst hi - fst lo;
                               dy = fst (snd hi) - fst (snd lo);
                               dz = snd (snd hi) - snd (snd lo);
                               max_dimension = max dx dy;
                               height = dz;
                               base_distance =
                                 (if view_type = Some ''below'' then max_dimension * 1.2
                                  else if view_type = Some ''total'' then max max_dimension height * 2
                                  else if view_type = Some ''upper'' then max_dimension * 1.2
                                  else max_dimension * 1.2)
                           in case camera self of
                                None \<Rightarrow> Raised AttributeError
                              | Some c \<Rightarrow>
                                  (case objects w c of
                                     None \<Rightarrow> Raised ReferenceError
                                   | Some cam \<Rightarrow>
                                       (let fov = cam_angle cam
                                        in if 2 * tan (fov / 2) = 0 then Raised ZeroDivisionError
                                           else Returned
                                                  ((base_distance / (2 * tan (fov / 2))) * 0.8)))))))))"

text \<open>The body of \<open>get_view_parameters\<close>.\<close>

definition get_view_parameters_body ::
  "TextureProjector \<times> world \<Rightarrow> string option list \<Rightarrow> (string \<times> string option) list \<Rightarrow>
   (real \<times> real \<times> vec) outcome" where
  "get_view_parameters_body sw args kwargs =
     (case sw of (self, w) \<Rightarrow>
      (case bind_view_type args kwargs of
         Raised e \<Rightarrow> Raised e
       | Returned view_type \<Rightarrow>
           (case obj self of
              None \<Rightarrow> Raised AttributeError
            | Some n \<Rightarrow>
                (case objects w n of
                   None \<Rightarrow> Raised ReferenceError
                 | Some ob \<Rightarrow>
                     (case bounds (bbox_corners ob) of
                        None \<Rightarrow> Raised (ValueError ''sequence is empty'')
                      | Some (min_bound, max_bound) \<Rightarrow>
                          (let center = ((fst min_bound + fst max_bound) / 2,
                                         (fst (snd min_bound) + fst (snd max_bound)) / 2,
                                         (snd (snd min_bound) + snd (snd max_bound)) / 2);
                               min_z = snd (snd min_bound);
                               max_z = snd (snd max_bound);
                               height = max_z - min_z
                           in Returned
                                (if view_type = Some ''below''
                                 then (0.3, min_z - height * 0.2, center)
                                 else if view_type = Some ''total''
                                 then (1.0, snd (snd center), center)
                                 else if view_type = Some ''upper''
                                 then (1.7, max_z + height * 0.2, center)
                                 else (1.0, snd (snd center), center))))))))"

text \<open>The two decorated methods: each call goes through \<open>memoize\<close> with the cache
  the instance holds for that method.\<close>

definition calculate_optimal_distance ::
  "TextureProjector \<Rightarrow> world \<Rightarrow> string option list \<Rightarrow> (string \<times> string option) list \<Rightarrow>
   real outcome \<times> TextureProjector" where
  "calculate_optimal_distance self w args kwargs =
     (case memoize calculate_optimal_distance_body (distance_cache self) (self, w) args kwargs of
        (r, cache) \<Rightarrow> (r, self\<lparr>distance_cache := cache\<rparr>))"

definition get_view_parameters ::
  "TextureProjector \<Rightarrow> world \<Rightarrow> string option list \<Rightarrow> (string \<times> string option) list \<Rightarrow>
   (real \<times> real \<times> vec) outcome \<times> TextureProjector" where
  "get_view_parameters self w args kwargs =
     (case memoize get_view_parameters_body (view_cache self) (self, w) args kwargs of
        (r, cache) \<Rightarrow> (r, self\<lparr>view_cache := cache\<rparr>))"

definition radians :: "real \<Rightarrow> real" where
  "radians d = d * pi / 180"

text \<open>\<open>position_camera\<close>. The camera is placed, aimed from its position at the
  target, and made the scene camera.\<close>

definition position_camera ::
  "TextureProjector \<Rightarrow> world \<Rightarrow> real \<Rightarrow> string option \<Rightarrow> unit outcome \<times> TextureProjector \<times> world" where
  "position_camera self w horizontal_angle view_type =
     (if obj self = None \<or> camera self = None
      then (Raised (ValueError ''Object or camera not set''), self, w)
      else
        (case get_view_parameters self w [view_type] [] of
           (Raised e, self1) \<Rightarrow> (Raised e, self1, w)
         | (Returned (z_mult, z_pos, target), self1) \<Rightarrow>
             (case calculate_optimal_distance self1 w [view_type] [] of
                (Raised e, self2) \<Rightarrow> (Raised e, self2, w)
              | (Returned distance, self2) \<Rightarrow>
                  (let h_rad = radians horizontal_angle;
                       tx = fst target; ty = fst (snd target); tz = snd (snd target);
                       camera_pos =
                         (if view_type = Some ''below''
                          then (tx + (distance * 0.9) * cos h_rad,
                                ty + (distance * 0.9) * sin h_rad,
                                z_pos - distance * 0.3)
                          else if view_type = Some ''total''
                          then (tx + distance * cos h_rad, ty + distance * sin h_rad, tz)
                          else (tx + (distance * 0.9) * cos h_rad,
                                ty + (distance * 0.9) * sin h_rad,
                                z_pos + distance * 0.3));
                       direction = (tx - fst camera_pos, ty - fst (snd camera_pos),
                                    tz - snd (snd camera_pos))
                   in case camera self2 of
                        None \<Rightarrow> (Raised AttributeError, self2, w)
                      | Some c \<Rightarrow>
                          (case objects w c of
                             None \<Rightarrow> (Raised ReferenceError, self2, w)
                           | Some cam \<Rightarrow>
                               (Returned (), self2,
                                w\<lparr>objects := (objects w)
                                     (c \<mapsto> cam\<lparr>location := camera_pos, aim := direction\<rparr>),
                                  scene_camera := Some c\<rparr>))))))"

text \<open>\<open>generate_camera_angles\<close>: the two nested loops appending to \<open>angles\<close>.\<close>

definition generate_camera_angles :: "TextureProjector \<Rightarrow> (string \<times> int) list" where
  "generate_camera_angles self =
     fold (\<lambda>view_type angles.
             fold (\<lambda>h_angle angles. angles @ [(view_type, h_angle)]) [0, 90, 180, 270] angles)
          [''below'', ''total'', ''upper''] []"

section \<open>Rendering and projecting one view\<close>

definition configure_viewport :: "nat \<Rightarrow> world \<Rightarrow> world" where
  "configure_viewport a w =
     set_attrs (Area a)
       [(''region_3d.view_perspective'', PStr ''CAMERA''),
        (''shading.type'', PStr ''RENDERED''),
        (''shading.use_scene_lights'', PBool True),
        (''shading.use_scene_world'', PBool True)] w"

definition setup_viewport ::
  "TextureProjector \<Rightarrow> world \<Rightarrow> unit outcome \<times> TextureProjector \<times> world" where
  "setup_viewport self w =
     (case view3d_context self w of
        (Raised e, self1) \<Rightarrow> (Raised e, self1, w)
      | (Returned a, self1) \<Rightarrow>
          if \<not> a < length (areas w) then (Raised ReferenceError, self1, w)
          else (Returned (), self1, configure_viewport a w))"

text \<open>\<open>bpy.ops.render.render(write_still=True)\<close>: the host either fails, or renders
  (which takes time) and, when it can, writes the still to the render file path.\<close>

definition render_still :: "string \<Rightarrow> world \<Rightarrow> unit outcome \<times> world" where
  "render_still path w =
     (case render_error w of
        Some m \<Rightarrow> (Raised (RuntimeError m), w)
      | None \<Rightarrow>
          (let w1 = (host_op ''render.render'' w)\<lparr>now := now w + render_secs w\<rparr>
           in (Returned (),
               if render_writes w1 then w1\<lparr>files := List.insert path (files w1)\<rparr> else w1)))"

definition render_keys :: "string list" where
  "render_keys = [''render.resolution_x'', ''render.resolution_y'', ''render.filepath'',
                  ''render.engine'', ''render.use_persistent_data'']"

definition restore_render :: "(string \<times> pyval option) list \<Rightarrow> world \<Rightarrow> world" where
  "restore_render original_settings w =
     fold (\<lambda>kv u. u\<lparr>attrs := (attrs u)((Scene, fst kv) := snd kv)\<rparr>) original_settings w"

text \<open>The render and EEVEE settings \<open>create_temp_render\<close> assigns before it
  renders, the path of the file it renders to and the name it gives the loaded image.\<close>

definition configure_render :: "TextureProjector \<Rightarrow> string \<Rightarrow> world \<Rightarrow> world" where
  "configure_render self temp_path w =
     set_attrs Scene
       [(''render.resolution_x'', PInt (resolution (settings self))),
        (''render.resolution_y'', PInt (resolution (settings self))),
        (''render.engine'', PStr ''BLENDER_EEVEE''),
        (''render.use_persistent_data'', PBool True),
        (''render.use_border'', PBool False),
        (''render.use_crop_to_border'', PBool False),
        (''render.image_settings.file_format'', PStr ''PNG''),
        (''render.image_settings.color_mode'', PStr ''RGBA''),
        (''render.image_settings.compression'', PInt 0),
        (''render.film_transparent'', PBool True),
        (''render.filepath'', PStr temp_path),
        (''eevee.use_gtao'', PBool True),
        (''eevee.gtao_distance'', PReal 0.2),
        (''eevee.use_ssr'', PBool True),
        (''eevee.use_ssr_refraction'', PBool True)] w"

definition temp_render_path :: "TextureProjector \<Rightarrow> int \<Rightarrow> string" where
  "temp_render_path self t = path_join (temp_dir self) (''temp_render_'' @ str_int t @ ''.png'')"

definition temp_render_name :: "TextureProjector \<Rightarrow> int \<Rightarrow> string" where
  "temp_render_name self t = render_view_prefix (settings self) @ ''_'' @ str_int t"

definition render_failed :: "exn \<Rightarrow> world \<Rightarrow> world" where
  "render_failed e w = print (''Error creating temp render: '' @ str_exn e) w"

text \<open>\<open>create_temp_render\<close>: the image it returns, or \<open>None\<close>. It records the
  name it asked for and the file path in \<open>temp_files\<close>; the \<open>finally\<close> block
  restores the five saved render settings on every path.\<close>

definition create_temp_render ::
  "TextureProjector \<Rightarrow> world \<Rightarrow> string option \<times> TextureProjector \<times> world" where
  "create_temp_render self w =
     (let original_settings = map (\<lambda>k. (k, attrs w (Scene, k))) render_keys;
          temp_path = temp_render_path self (now w);
          w1 = configure_render self temp_path w
      in case render_still temp_path w1 of
           (Raised e, w2) \<Rightarrow>
             (None, self, restore_render original_settings (render_failed e w2))
         | (Returned _, w2) \<Rightarrow>
             if path_exists temp_path w2
             then
               (let temp_name = temp_render_name self (now w2);
                    given = unique_name temp_name (images w2);
                    w3 = set_attr (Image given) ''packed'' (PBool True)
                           (w2\<lparr>images := images w2 @ [given]\<rparr>)
                in (Some given,
                    self\<lparr>temp_files := temp_files self @ [(temp_name, temp_path)]\<rparr>,
                    restore_render original_settings w3))
             else (None, self, restore_render original_settings w2))"

text \<open>The guarded block of \<open>project_texture\<close>: project the render onto the bake
  image, update and save it; any failure is printed and swallowed.\<close>

definition projection_failed :: "exn \<Rightarrow> world \<Rightarrow> world" where
  "projection_failed e w = print (''Error during texture projection: '' @ str_exn e) w"

definition project_from_view :: "TextureProjector \<Rightarrow> nat \<Rightarrow> string \<Rightarrow> world \<Rightarrow> world" where
  "project_from_view self a render_image w =
     (let w1 = set_attr ImagePaint ''clone_image'' (PStr render_image) w
      in if \<not> a < length (areas w1) then projection_failed ReferenceError w1
         else if ''WINDOW'' \<notin> set (region_types (areas w1 ! a))
         then projection_failed IndexError w1
         else
           (case project_error w1 of
              Some m \<Rightarrow> projection_failed (RuntimeError m) w1
            | None \<Rightarrow>
                (case bake_image self of
                   None \<Rightarrow> projection_failed AttributeError (host_op ''paint.project_image'' w1)
                 | Some b \<Rightarrow>
                     w1\<lparr>painted := painted w1 @ [(b, render_image)],
                        saved := saved w1 @ [b]\<rparr>)))"

text \<open>The image paint settings \<open>project_texture\<close> assigns (to the host's
  \<open>tool_settings.image_paint\<close>, which the method calls \<open>settings\<close>), and the
  line it prints.\<close>

definition configure_image_paint :: "TextureProjector \<Rightarrow> world \<Rightarrow> world" where
  "configure_image_paint self w =
     set_attrs ImagePaint
       [(''mode'', PStr ''IMAGE''),
        (''canvas'', (case bake_image self of None \<Rightarrow> PNone | Some b \<Rightarrow> PStr b)),
        (''use_occlude'', PBool True),
        (''use_backface_culling'', PBool True),
        (''seam_bleed'', PInt (seam_bleed (settings self))),
        (''screen_grab_size'',
           PPair (resolution (settings self)) (resolution (settings self)))] w"

definition processing_line :: "int \<Rightarrow> int \<Rightarrow> string" where
  "processing_line current_count total_count =
     ''Processing view '' @ str_int current_count @ ''/'' @ str_int total_count"

definition texture_paint :: string where
  "texture_paint = ''TEXTURE_PAINT''"

text \<open>\<open>project_texture\<close>. Its first argument is not used by the method.\<close>

definition project_texture ::
  "TextureProjector \<Rightarrow> world \<Rightarrow> pyval \<Rightarrow> int \<Rightarrow> int \<Rightarrow> unit outcome \<times> TextureProjector \<times> world" where
  "project_texture self w angle current_count total_count =
     (let w0 = w\<lparr>active_object := obj self\<rparr>
      in case object_mode_enter self texture_paint w0 of
           (Raised e, w1) \<Rightarrow> (Raised e, self, w1)
         | (Returned original_mode, w1) \<Rightarrow>
             (let w2 = configure_image_paint self w1
              in case view3d_context self w2 of
                   (Raised e, self1) \<Rightarrow>
                     (Raised e, self1, object_mode_exit original_mode texture_paint w2)
                 | (Returned a, self1) \<Rightarrow>
                     (let w3 = print (processing_line current_count total_count) w2
                      in case create_temp_render self1 w3 of
                           (None, self2, w4) \<Rightarrow>
                             (Returned (), self2,
                              object_mode_exit original_mode texture_paint w4)
                         | (Some render_image, self2, w4) \<Rightarrow>
                             (Returned (), self2,
                              object_mode_exit original_mode texture_paint
                                (project_from_view self2 a render_image w4)))))"

text \<open>The three calls that \<open>TextureProjector.process\<close> and the operator's
  \<open>modal\<close> both make for one camera angle: position the camera, set up the
  viewport, project. The first call that raises ends the sequence.\<close>

definition view_label :: "string option \<Rightarrow> int \<Rightarrow> string" where
  "view_label view_type h_angle =
     (case view_type of None \<Rightarrow> ''None'' | Some v \<Rightarrow> v) @ ''_'' @ str_int h_angle"

definition render_view ::
  "TextureProjector \<Rightarrow> world \<Rightarrow> string option \<Rightarrow> int \<Rightarrow> int \<Rightarrow> int \<Rightarrow>
   unit outcome \<times> TextureProjector \<times> world" where
  "render_view self w view_type h_angle current_count total_count =
     (case position_camera self w (real_of_int h_angle) view_type of
        (Raised e, self1, w1) \<Rightarrow> (Raised e, self1, w1)
      | (Returned _, self1, w1) \<Rightarrow>
          (case setup_viewport self1 w1 of
             (Raised e, self2, w2) \<Rightarrow> (Raised e, self2, w2)
           | (Returned _, self2, w2) \<Rightarrow>
               project_texture self2 w2 (PStr (view_label view_type h_angle))
                 current_count total_count))"

section \<open>TextureProjector.process\<close>

text \<open>The four setup calls, in the order both \<open>process\<close> and the operator's
  \<open>execute\<close> make them.\<close>

definition setup_ops ::
  "(string \<times> (TextureProjector \<Rightarrow> world \<Rightarrow> unit outcome \<times> TextureProjector \<times> world)) list" where
  "setup_ops =
     [(''create_uv_map'',
         \<lambda>self w. case create_uv_map self w of (r, w1) \<Rightarrow> (r, self, w1)),
      (''<lambda>'',
         \<lambda>self w. case create_bake_image self w of
                     (img, w1) \<Rightarrow> (Returned (), self\<lparr>bake_image := Some img\<rparr>, w1)),
      (''setup_material_nodes'', setup_material_nodes),
      (''setup_camera'',
         \<lambda>self w. case setup_camera self w of (self1, w1) \<Rightarrow> (Returned (), self1, w1))]"

fun run_ops ::
  "(string \<times> (TextureProjector \<Rightarrow> world \<Rightarrow> unit outcome \<times> TextureProjector \<times> world)) list \<Rightarrow>
   bool \<Rightarrow> TextureProjector \<Rightarrow> world \<Rightarrow> unit outcome \<times> TextureProjector \<times> world" where
  "run_ops [] wrap self w = (Returned (), self, w)"
| "run_ops (op # ops) wrap self w =
     (case snd op self w of
        (Raised e, self1, w1) \<Rightarrow>
          (Raised (if wrap
                   then RuntimeError (''Setup failed during '' @ fst op @ '': '' @ str_exn e)
                   else e), self1, w1)
      | (Returned _, self1, w1) \<Rightarrow> run_ops ops wrap self1 w1)"

definition view_failed :: "int \<Rightarrow> int \<Rightarrow> exn \<Rightarrow> world \<Rightarrow> world" where
  "view_failed idx total_angles e w =
     print (''Error processing view '' @ str_int idx @ ''/'' @ str_int total_angles @
            '': '' @ str_exn e) w"

text \<open>The loop of \<open>process\<close> over the camera angles: a view that raises is
  reported and the loop continues with the next one.\<close>

fun process_views ::
  "(string \<times> int) list \<Rightarrow> int \<Rightarrow> int \<Rightarrow> TextureProjector \<Rightarrow> world \<Rightarrow> TextureProjector \<times> world" where
  "process_views [] idx total_angles self w = (self, w)"
| "process_views (a # rest) idx total_angles self w =
     (case render_view self w (Some (fst a)) (snd a) idx total_angles of
        (Raised e, self1, w1) \<Rightarrow>
          process_views rest (idx + 1) total_angles self1
            (view_failed idx total_angles e w1)
      | (Returned _, self1, w1) \<Rightarrow> process_views rest (idx + 1) total_angles self1 w1)"

definition process_body ::
  "TextureProjector \<Rightarrow> world \<Rightarrow> unit outcome \<times> TextureProjector \<times> world" where
  "process_body self w =
     (let self0 = self\<lparr>obj := active_object w\<rparr>;
          is_mesh = (case obj self0 of
                       None \<Rightarrow> Returned False
                     | Some n \<Rightarrow> (case objects w n of
                                    None \<Rightarrow> Raised ReferenceError
                                  | Some ob \<Rightarrow> Returned (o_type ob = ''MESH'')))
      in case is_mesh of
           Raised e \<Rightarrow> (Raised e, self0, w)
         | Returned False \<Rightarrow> (Raised (ValueError ''Please select a mesh object''), self0, w)
         | Returned True \<Rightarrow>
             (case run_ops setup_ops False self0 w of
                (Raised e, self1, w1) \<Rightarrow> (Raised e, self1, w1)
              | (Returned _, self1, w1) \<Rightarrow>
                  (case run_ops setup_ops True self1 w1 of
                     (Raised e, self2, w2) \<Rightarrow> (Raised e, self2, w2)
                   | (Returned _, self2, w2) \<Rightarrow>
                       (let w3 = (case camera self2 of
                                    None \<Rightarrow> w2
                                  | Some c \<Rightarrow> set_attr (ObjData c) ''lens'' (PInt 35) w2);
                            camera_angles = generate_camera_angles self2;
                            total_angles = int (length camera_angles)
                        in case process_views camera_angles 1 total_angles self2 w3 of
                             (self3, w4) \<Rightarrow> (Returned (), self3, w4)))))"

text \<open>\<open>process\<close>: the body under \<open>try\<close>, then \<open>cleanup\<close> in the
  \<open>finally\<close> block, whether the body returned or raised.\<close>

definition process ::
  "TextureProjector \<Rightarrow> world \<Rightarrow> unit outcome \<times> TextureProjector \<times> world" where
  "process self w =
     (case process_body self w of
        (r, self1, w1) \<Rightarrow> (case cleanup self1 w1 of (self2, w2) \<Rightarrow> (r, self2, w2)))"

section \<open>The bake operator (operators/texture_baker.py)\<close>

datatype op_result = FINISHED | CANCELLED | RUNNING_MODAL | PASS_THROUGH

text \<open>An instance of \<open>EEVEE_OT_TextureBaker\<close>. A new instance reads the class
  attributes: no timer, no projector, no angles, index 0.\<close>

record EEVEE_OT_TextureBaker =
  timer :: "nat option"
  projector :: "TextureProjector option"
  camera_angles :: "(string option \<times> int) list"
  current_angle_index :: nat

definition new_EEVEE_OT_TextureBaker :: EEVEE_OT_TextureBaker where
  "new_EEVEE_OT_TextureBaker =
     \<lparr>timer = None, projector = None, camera_angles = [], current_angle_index = 0\<rparr>"

definition event_timer_add :: "real \<Rightarrow> world \<Rightarrow> nat \<times> world" where
  "event_timer_add time_step w =
     (next_timer w,
      w\<lparr>timers := timers w @ [(next_timer w, time_step)], next_timer := next_timer w + 1\<rparr>)"

definition event_timer_remove :: "nat \<Rightarrow> world \<Rightarrow> world" where
  "event_timer_remove t w = w\<lparr>timers := filter (\<lambda>x. fst x \<noteq> t) (timers w)\<rparr>"

definition report :: "string \<Rightarrow> string \<Rightarrow> world \<Rightarrow> world" where
  "report level msg w = w\<lparr>reports := reports w @ [(level, msg)]\<rparr>"

definition objects_remove :: "string \<Rightarrow> world \<Rightarrow> world" where
  "objects_remove n w =
     w\<lparr>objects := (objects w)(n := None),
       active_object := (if active_object w = Some n then None else active_object w),
       scene_camera := (if scene_camera w = Some n then None else scene_camera w)\<rparr>"

text \<open>\<open>EEVEE_OT_TextureBaker.cleanup\<close>.\<close>

definition baker_cleanup :: "EEVEE_OT_TextureBaker \<Rightarrow> world \<Rightarrow> EEVEE_OT_TextureBaker \<times> world" where
  "baker_cleanup self w =
     (let w1 = w\<lparr>props := (props w)\<lparr>is_baking := False\<rparr>\<rparr>;
          w2 = (case timer self of None \<Rightarrow> w1 | Some t \<Rightarrow> event_timer_remove t w1)
      in case projector self of
           None \<Rightarrow> (self, w2)
         | Some p \<Rightarrow>
             (case cleanup p w2 of
                (p1, w3) \<Rightarrow>
                  (self\<lparr>projector := Some p1\<rparr>,
                   if auto_bake (props w3)
                   then (case camera p1 of None \<Rightarrow> w3 | Some c \<Rightarrow> objects_remove c w3)
                   else w3)))"

text \<open>\<open>EEVEE_OT_TextureBaker.modal\<close>, called by the host with each event while the
  operator runs.\<close>

definition baker_modal ::
  "EEVEE_OT_TextureBaker \<Rightarrow> world \<Rightarrow> string \<Rightarrow> op_result outcome \<times> EEVEE_OT_TextureBaker \<times> world" where
  "baker_modal self w event_type =
     (if should_cancel (props w)
      then
        (case baker_cleanup self w of
           (self1, w1) \<Rightarrow>
             (Returned FINISHED, self1,
              report ''INFO'' ''Baking cancelled''
                (w1\<lparr>props := (props w1)\<lparr>should_cancel := False\<rparr>\<rparr>)))
      else if event_type = ''TIMER''
      then
        (if \<not> auto_bake (props w)
         then
           (case projector self of
              None \<Rightarrow> (Raised AttributeError, self, w)
            | Some p \<Rightarrow>
                (case project_texture p w (PInt 0) 1 1 of
                   (Raised e, p1, w1) \<Rightarrow> (Raised e, self\<lparr>projector := Some p1\<rparr>, w1)
                 | (Returned _, p1, w1) \<Rightarrow>
                     (case baker_cleanup (self\<lparr>projector := Some p1\<rparr>) w1 of
                        (self1, w2) \<Rightarrow> (Returned FINISHED, self1, w2))))
         else if current_angle_index self \<ge> length (camera_angles self)
         then (case baker_cleanup self w of (self1, w1) \<Rightarrow> (Returned FINISHED, self1, w1))
         else
           (let a = camera_angles self ! current_angle_index self;
                total = int (length (camera_angles self))
            in case projector self of
                 None \<Rightarrow> (Raised AttributeError, self, w)
               | Some p \<Rightarrow>
                   (case render_view p w (fst a) (snd a)
                           (int (current_angle_index self) + 1) total of
                      (Raised e, p1, w1) \<Rightarrow> (Raised e, self\<lparr>projector := Some p1\<rparr>, w1)
                    | (Returned _, p1, w1) \<Rightarrow>
                        (Returned PASS_THROUGH,
                         self\<lparr>projector := Some p1,
                              current_angle_index := current_angle_index self + 1\<rparr>,
                         w1\<lparr>props := (props w1)
                              \<lparr>progress := int (current_angle_index self) + 1,
                               total_steps := total\<rparr>\<rparr>))))
      else (Returned PASS_THROUGH, self, w))"

text \<open>The quality preset of \<open>execute\<close>, applied from the preferences.\<close>

definition apply_quality_preset :: "preferences \<Rightarrow> world \<Rightarrow> world" where
  "apply_quality_preset prefs w =
     (if quality_preset (props w) = ''FAST''
      then set_attrs Scene
             [(''eevee.taa_render_samples'', PInt (fast_taa_samples prefs)),
              (''eevee.shadow_cube_size'', PStr (fast_shadow_size prefs)),
              (''eevee.shadow_cascade_size'', PStr (fast_shadow_size prefs))] w
      else if quality_preset (props w) = ''BALANCED''
      then set_attrs Scene
             [(''eevee.taa_render_samples'', PInt (balanced_taa_samples prefs)),
              (''eevee.shadow_cube_size'', PStr (balanced_shadow_size prefs)),
              (''eevee.shadow_cascade_size'', PStr (balanced_shadow_size prefs))] w
      else set_attrs Scene
             [(''eevee.taa_render_samples'', PInt (high_taa_samples prefs)),
              (''eevee.shadow_cube_size'', PStr (high_shadow_size prefs)),
              (''eevee.shadow_cascade_size'', PStr (high_shadow_size prefs)),
              (''eevee.taa_render_samples'', PInt 32),
              (''eevee.shadow_cube_size'', PStr ''1024'')] w)"

text \<open>The body of \<open>execute\<close> under \<open>try\<close>. Besides its outcome it yields the
  operator, whose \<open>projector\<close> attribute is set as soon as the projector is built.\<close>

definition baker_execute_body ::
  "EEVEE_OT_TextureBaker \<Rightarrow> world \<Rightarrow> op_result outcome \<times> EEVEE_OT_TextureBaker \<times> world" where
  "baker_execute_body self w =
     (let w1 = w\<lparr>props := (props w)\<lparr>is_baking := True, progress := 0, should_cancel := False\<rparr>\<rparr>
      in case addons w1 ''Texture Paint Bake'' of
           None \<Rightarrow> (Raised (KeyError ''Texture Paint Bake''), self, w1)
         | Some None \<Rightarrow>
             (Returned CANCELLED, self, report ''ERROR'' ''Could not find addon preferences'' w1)
         | Some (Some prefs) \<Rightarrow>
             (let w2 = apply_quality_preset prefs w1;
                  st = new_ProjectionSettings (p_resolution (props w2)) (file_name (props w2))
                         (abspath w2 (output_directory (props w2))) (p_seam_bleed (props w2))
              in case new_TextureProjector st w2 of
                   (Raised e, w3) \<Rightarrow> (Raised e, self, w3)
                 | (Returned p, w3) \<Rightarrow>
                     (case run_ops setup_ops False (p\<lparr>obj := active_object w3\<rparr>) w3 of
                        (Raised e, p1, w4) \<Rightarrow> (Raised e, self\<lparr>projector := Some p1\<rparr>, w4)
                      | (Returned _, p1, w4) \<Rightarrow>
                          (let self1 = self\<lparr>projector := Some p1\<rparr>
                           in if auto_bake (props w4)
                              then
                                (let angles = map (\<lambda>a. (Some (fst a), snd a))
                                                (generate_camera_angles p1);
                                     w5 = w4\<lparr>props := (props w4)
                                            \<lparr>total_steps := int (length angles)\<rparr>\<rparr>
                                 in case event_timer_add 0.1 w5 of
                                      (t, w6) \<Rightarrow>
                                        (Returned RUNNING_MODAL,
                                         self1\<lparr>camera_angles := angles, timer := Some t\<rparr>,
                                         w6\<lparr>modal_handlers := modal_handlers w6 + 1\<rparr>))
                              else
                                (let w5 = w4\<lparr>props := (props w4)\<lparr>total_steps := 1\<rparr>\<rparr>
                                 in case event_timer_add 0.1 w5 of
                                      (t, w6) \<Rightarrow>
                                        (Returned RUNNING_MODAL,
                                         self1\<lparr>camera_angles := [(None, 0)], timer := Some t\<rparr>,
                                         w6\<lparr>modal_handlers := modal_handlers w6 + 1\<rparr>))))))"

text \<open>\<open>EEVEE_OT_TextureBaker.execute\<close>: an exception of the body is answered by
  \<open>cleanup\<close>, an error report and \<open>CANCELLED\<close>.\<close>

definition baker_execute ::
  "EEVEE_OT_TextureBaker \<Rightarrow> world \<Rightarrow> op_result \<times> EEVEE_OT_TextureBaker \<times> world" where
  "baker_execute self w =
     (case baker_execute_body self w of
        (Returned r, self1, w1) \<Rightarrow> (r, self1, w1)
      | (Raised e, self1, w1) \<Rightarrow>
          (case baker_cleanup self1 w1 of
             (self2, w2) \<Rightarrow> (CANCELLED, self2, report ''ERROR'' (str_exn e) w2)))"

section \<open>The cancel operator (operators/cancel_bake.py)\<close>

definition cancel_execute :: "world \<Rightarrow> op_result \<times> world" where
  "cancel_execute w =
     (FINISHED,
      w\<lparr>props := (props w)\<lparr>should_cancel := True, is_baking := False, progress := 0\<rparr>\<rparr>)"

section \<open>The preview toggle (operators/toggle_bake.py)\<close>

text \<open>\<open>toggle_material_nodes\<close>, on the first material of an object. The custom
  property \<open>mat["original_connection"]\<close> is the field \<open>original_connection\<close>
  of the material: the name of the node and the index of its output socket.\<close>

definition toggle_material :: "bool \<Rightarrow> material \<Rightarrow> material" where
  "toggle_material show m =
     (let m1 = (if show \<and> original_connection m = None
                then (case surface_links m of
                        [] \<Rightarrow> m
                      | current_link # _ \<Rightarrow>
                          if from_node current_link \<noteq> ''Bake_Texture''
                          then m\<lparr>original_connection :=
                                 Some (from_node current_link, from_socket current_link)\<rparr>
                          else m)
                else m);
          cleared = filter (\<lambda>l. \<not> (to_node l = ''Material Output'' \<and>
                                      to_socket l = SockName ''Surface'')) (links m1);
          bake_link = \<lparr>from_node = ''Bake_Texture'', from_socket = 0,
                       to_node = ''Material Output'', to_socket = SockName ''Surface''\<rparr>;
          restored =
            (case original_connection m1 of
               None \<Rightarrow> bake_link
             | Some oc \<Rightarrow>
                 (case nodes_get (fst oc) m1 of
                    None \<Rightarrow> bake_link
                  | Some original_node \<Rightarrow>
                      if snd oc < n_outputs original_node
                      then \<lparr>from_node = fst oc, from_socket = snd oc,
                            to_node = ''Material Output'', to_socket = SockName ''Surface''\<rparr>
                      else bake_link))
      in m1\<lparr>links := links_new (if show then bake_link else restored) cleared\<rparr>)"

definition toggle_material_nodes :: "string option \<Rightarrow> bool \<Rightarrow> world \<Rightarrow> world" where
  "toggle_material_nodes ob_ref show w =
     (case (case ob_ref of None \<Rightarrow> None | Some n \<Rightarrow> objects w n) of
        None \<Rightarrow> print ''No object or materials found.'' w
      | Some ob \<Rightarrow>
          (case materials ob of
             [] \<Rightarrow> print ''No object or materials found.'' w
           | mat # _ \<Rightarrow>
               if \<not> mat < length (mats w) then w
               else if \<not> use_nodes (mats w ! mat) then print ''Material does not use nodes.'' w
               else if nodes_get ''Bake_Texture'' (mats w ! mat) = None
               then print ''Bake_Texture node not found.'' w
               else if nodes_get ''Material Output'' (mats w ! mat) = None
               then print ''Material Output node not found.'' w
               else
                 (let m = mats w ! mat;
                      w1 = (if show \<and> original_connection m = None \<and>
                               (case surface_links m of
                                  [] \<Rightarrow> False
                                | l # _ \<Rightarrow> from_node l = ''Bake_Texture'')
                            then print ''Bake_Texture is already connected; original connection not saved.'' w
                            else w)
                  in w1\<lparr>mats := (mats w1)[mat := toggle_material show m]\<rparr>)))"

text \<open>\<open>EEVEE_OT_ToggleBakePreview.execute\<close>.\<close>

definition toggle_execute :: "world \<Rightarrow> op_result \<times> world" where
  "toggle_execute w =
     (let has_mesh = (\<lambda>u. case active_object u of
                           None \<Rightarrow> False
                         | Some n \<Rightarrow> (case objects u n of
                                        None \<Rightarrow> False
                                      | Some ob \<Rightarrow> o_type ob = ''MESH'' \<and> materials ob \<noteq> []));
          w1 = (if has_mesh w
                then (let u = w\<lparr>props := (props w)\<lparr>show_bake := \<not> show_bake (props w)\<rparr>\<rparr>
                      in toggle_material_nodes (active_object u) (show_bake (props u)) u)
                else print ''No active mesh object found.'' w);
          w2 = (if has_mesh w1
                then (case active_object w1 of
                        None \<Rightarrow> w1
                      | Some n \<Rightarrow>
                          (case objects w1 n of
                             None \<Rightarrow> w1
                           | Some ob \<Rightarrow>
                               (let mat = hd (materials ob)
                                in if mat < length (mats w1) \<and>
                                      original_connection (mats w1 ! mat) \<noteq> None \<and>
                                      \<not> show_bake (props w1)
                                   then w1\<lparr>mats := (mats w1)
                                          [mat := (mats w1 ! mat)\<lparr>original_connection := None\<rparr>]\<rparr>
                                   else w1)))
                else w1)
      in (FINISHED, w2))"

section \<open>Observations and a small scene\<close>

text \<open>The host with the cancel flag set to a given value, everything else unchanged.\<close>

definition set_cancel :: "bool \<Rightarrow> world \<Rightarrow> world" where
  "set_cancel b w = w\<lparr>props := (props w)\<lparr>should_cancel := b\<rparr>\<rparr>"

text \<open>The number of views whose processing was announced on standard output
  (\<open>project_texture\<close> prints one line per view it processes).\<close>

definition views_processed :: "world \<Rightarrow> nat" where
  "views_processed w = length (filter (\<lambda>l. take 16 l = ''Processing view '') (stdout w))"

text \<open>Whether a call returned (rather than raised).\<close>

definition returns :: "'a outcome \<Rightarrow> bool" where
  "returns r = (case r of Returned _ \<Rightarrow> True | Raised _ \<Rightarrow> False)"

text \<open>Where each object is placed and aimed.\<close>

definition placements :: "world \<Rightarrow> string \<Rightarrow> (vec \<times> vec) option" where
  "placements w n = map_option (\<lambda>ob. (location ob, aim ob)) (objects w n)"

text \<open>The settings of the projector an operator holds, if it holds one.\<close>

definition operator_settings :: "EEVEE_OT_TextureBaker \<Rightarrow> ProjectionSettings option" where
  "operator_settings self = map_option settings (projector self)"

text \<open>A scene to instantiate the theorems on: a cube of side 2 at the origin, one 3D
  viewport, an empty file system below \<open>/p\<close>, and the camera the host creates with its
  default lens (50 mm on a 36 mm sensor).\<close>

definition example_cube :: object where
  "example_cube =
     \<lparr> o_type = ''MESH'', o_mode = ''OBJECT'', uv_layers = [], materials = [],
       bound_box = [(-1, -1, -1), (-1, -1, 1), (-1, 1, 1), (-1, 1, -1),
                    (1, -1, -1), (1, -1, 1), (1, 1, 1), (1, 1, -1)],
       matrix_world = ((1, 0, 0, 0), (0, 1, 0, 0), (0, 0, 1, 0)),
       location = (0, 0, 0), aim = (0, 0, -1), cam_angle = 0 \<rparr>"

definition example_camera :: object where
  "example_camera =
     \<lparr> o_type = ''CAMERA'', o_mode = ''OBJECT'', uv_layers = [], materials = [],
       bound_box = [], matrix_world = ((1, 0, 0, 0), (0, 1, 0, 0), (0, 0, 1, 0)),
       location = (0, 0, 0), aim = (0, 0, -1), cam_angle = 2 * arctan (9 / 25) \<rparr>"

definition example_props :: baker_props where
  "example_props =
     \<lparr> quality_preset = ''BALANCED'', show_bake = False, force_new_uv = False,
       should_cancel = False, output_directory = ''//texture_projections'',
       file_name = ''Bake_Texture'', auto_bake = True, p_resolution = 4096,
       p_seam_bleed = 2, progress = 0, total_steps = 0, is_baking = False \<rparr>"

definition example_preferences :: preferences where
  "example_preferences =
     \<lparr> fast_taa_samples = 0, fast_shadow_size = ''128'', balanced_taa_samples = 16,
       balanced_shadow_size = ''512'', high_taa_samples = 32, high_shadow_size = ''1024'' \<rparr>"

definition example_world :: world where
  "example_world =
     \<lparr> props = example_props,
       addons = [''Texture Paint Bake'' \<mapsto> Some example_preferences],
       attrs = Map.empty, images = [], files = [], dirs = [], os_error = Map.empty,
       blend_filepath = ''/p/a.blend'', app_tempdir = ''/tmp'',
       abspath = (\<lambda>p. ''/p/'' @ drop 2 p), relpath = (\<lambda>p. ''//'' @ drop 3 p),
       areas = [\<lparr>area_type = ''VIEW_3D'', region_types = [''HEADER'', ''WINDOW'']\<rparr>],
       objects = [''Cube'' \<mapsto> example_cube], active_object = Some ''Cube'',
       scene_camera = None, mats = [], camera_template = example_camera,
       timers = [], next_timer = 0, modal_handlers = 0, now = 1700000000, render_secs = 0,
       render_error = None, render_writes = True, project_error = None, host_ops = [],
       painted = [], saved = [], stdout = [], reports = [] \<rparr>"

text \<open>The operator and the host after \<open>execute\<close> on that scene, in auto-bake mode
  and in single-shot mode.\<close>

definition example_auto :: "EEVEE_OT_TextureBaker \<times> world" where
  "example_auto = snd (baker_execute new_EEVEE_OT_TextureBaker example_world)"


text \<open>The same scene on a screen without a 3D viewport (only an image editor).\<close>

definition no_viewport_world :: world where
  "no_viewport_world =
     example_world\<lparr>areas := [\<lparr>area_type = ''IMAGE_EDITOR'', region_types = [''WINDOW'']\<rparr>]\<rparr>"

definition no_viewport_auto :: "EEVEE_OT_TextureBaker \<times> world" where
  "no_viewport_auto = snd (baker_execute new_EEVEE_OT_TextureBaker no_viewport_world)"

text \<open>A projector that recorded one render whose file the file system refuses to
  delete.\<close>

definition example_settings :: ProjectionSettings where
  "example_settings = new_ProjectionSettings 4096 ''Bake_Texture'' ''/p/texture_projections'' 2"

definition example_projector :: TextureProjector where
  "example_projector =
     \<lparr> settings = example_settings, obj = Some ''Cube'', bake_image = Some ''Bake_Texture'',
       camera = Some ''BakeCamera'', temp_files = [], original_nodes = Map.empty,
       output_dir = ''/p/texture_projections'', temp_dir = ''/p/temp_renders'',
       view3d_cache = None, aspect_ratio = 1, distance_cache = Map.empty,
       view_cache = Map.empty \<rparr>"



section \<open>Host primitives as record updates\<close>

named_theorems prim \<open>host primitives that are one record update\<close>

declare set_attr_def [prim] print_def [prim] host_op_def [prim] report_def [prim]
  batch_remove_def [prim] event_timer_remove_def [prim] objects_remove_def [prim]
  render_failed_def [prim] projection_failed_def [prim] view_failed_def [prim]

lemma set_attrs_eq:
  "set_attrs t kvs w = w\<lparr>attrs := fold (\<lambda>kv m. m((t, fst kv) \<mapsto> snd kv)) kvs (attrs w)\<rparr>"
  unfolding set_attrs_def
  by (induction kvs arbitrary: w) (simp_all add: set_attr_def)

lemma restore_render_eq:
  "restore_render os w = w\<lparr>attrs := fold (\<lambda>kv m. m((Scene, fst kv) := snd kv)) os (attrs w)\<rparr>"
  unfolding restore_render_def
  by (induction os arbitrary: w) simp_all

lemma mode_set_eq:
  "mode_set m w = w\<lparr>objects := objects (mode_set m w)\<rparr>"
  by (simp add: mode_set_def split: option.split)

lemma mode_set_fields [simp]:
  "props (mode_set m w) = props w"
  "attrs (mode_set m w) = attrs w"
  "images (mode_set m w) = images w"
  "files (mode_set m w) = files w"
  "dirs (mode_set m w) = dirs w"
  "os_error (mode_set m w) = os_error w"
  "areas (mode_set m w) = areas w"
  "active_object (mode_set m w) = active_object w"
  "scene_camera (mode_set m w) = scene_camera w"
  "mats (mode_set m w) = mats w"
  "timers (mode_set m w) = timers w"
  "now (mode_set m w) = now w"
  "render_secs (mode_set m w) = render_secs w"
  "render_error (mode_set m w) = render_error w"
  "render_writes (mode_set m w) = render_writes w"
  "project_error (mode_set m w) = project_error w"
  "host_ops (mode_set m w) = host_ops w"
  "painted (mode_set m w) = painted w"
  "saved (mode_set m w) = saved w"
  "stdout (mode_set m w) = stdout w"
  by (simp_all add: mode_set_def split: option.split)

text \<open>\<open>mode_set\<close> changes the mode of an object and nothing else about it.\<close>

lemma mode_set_object:
  "objects w n = Some ob \<Longrightarrow>
   \<exists>ob'. objects (mode_set m w) n = Some ob' \<and> location ob' = location ob \<and>
         aim ob' = aim ob \<and> cam_angle ob' = cam_angle ob"
  by (auto simp: mode_set_def split: option.split)

lemma mode_set_object_rev:
  "objects (mode_set m w) n = Some ob' \<Longrightarrow> \<exists>ob. objects w n = Some ob"
  by (auto simp: mode_set_def split: option.splits if_splits)

lemmas config_defs = configure_viewport_def configure_render_def configure_image_paint_def
  configure_camera_def configure_bake_image_def configure_bake_nodes_def

section \<open>Standard output\<close>

lemma views_processed_print:
  "views_processed (print l w) =
     (if take 16 l = ''Processing view '' then Suc (views_processed w) else views_processed w)"
  by (simp add: views_processed_def print_def)

lemma views_processed_same_stdout:
  "stdout w' = stdout w \<Longrightarrow> views_processed w' = views_processed w"
  by (simp add: views_processed_def)

lemma views_processed_failed [simp]:
  "views_processed (render_failed e w) = views_processed w"
  "views_processed (projection_failed e w) = views_processed w"
  "views_processed (view_failed i n e w) = views_processed w"
  by (simp_all add: render_failed_def projection_failed_def view_failed_def views_processed_print)

lemma views_processed_line [simp]:
  "views_processed (print (processing_line c t) w) = Suc (views_processed w)"
  by (simp add: views_processed_print processing_line_def)

section \<open>Cleanup of the temporary renders\<close>

lemma os_remove_fields [simp]:
  "props (snd (os_remove p w)) = props w"
  "images (snd (os_remove p w)) = images w"
  "dirs (snd (os_remove p w)) = dirs w"
  "os_error (snd (os_remove p w)) = os_error w"
  "objects (snd (os_remove p w)) = objects w"
  "active_object (snd (os_remove p w)) = active_object w"
  "scene_camera (snd (os_remove p w)) = scene_camera w"
  "timers (snd (os_remove p w)) = timers w"
  "host_ops (snd (os_remove p w)) = host_ops w"
  "painted (snd (os_remove p w)) = painted w"
  "stdout (snd (os_remove p w)) = stdout w"
  by (simp_all add: os_remove_def split: option.split)

lemma os_remove_files [simp]:
  "files (snd (os_remove p w)) =
     (case os_error w (''remove'', p) of Some _ \<Rightarrow> files w | None \<Rightarrow> removeAll p (files w))"
  by (simp add: os_remove_def split: option.split)

lemma os_rmdir_fields [simp]:
  "props (snd (os_rmdir p w)) = props w"
  "images (snd (os_rmdir p w)) = images w"
  "files (snd (os_rmdir p w)) = files w"
  "os_error (snd (os_rmdir p w)) = os_error w"
  "objects (snd (os_rmdir p w)) = objects w"
  "active_object (snd (os_rmdir p w)) = active_object w"
  "scene_camera (snd (os_rmdir p w)) = scene_camera w"
  "timers (snd (os_rmdir p w)) = timers w"
  "host_ops (snd (os_rmdir p w)) = host_ops w"
  "painted (snd (os_rmdir p w)) = painted w"
  "stdout (snd (os_rmdir p w)) = stdout w"
  by (simp_all add: os_rmdir_def split: option.split)

lemma cleanup_entry_fields [simp]:
  "props (snd (cleanup_entry e acc)) = props (snd acc)"
  "images (snd (cleanup_entry e acc)) = images (snd acc)"
  "dirs (snd (cleanup_entry e acc)) = dirs (snd acc)"
  "os_error (snd (cleanup_entry e acc)) = os_error (snd acc)"
  "objects (snd (cleanup_entry e acc)) = objects (snd acc)"
  "active_object (snd (cleanup_entry e acc)) = active_object (snd acc)"
  "scene_camera (snd (cleanup_entry e acc)) = scene_camera (snd acc)"
  "timers (snd (cleanup_entry e acc)) = timers (snd acc)"
  "host_ops (snd (cleanup_entry e acc)) = host_ops (snd acc)"
  "painted (snd (cleanup_entry e acc)) = painted (snd acc)"
  by (simp_all add: cleanup_entry_def Let_def split_beta prim split: outcome.split)

lemma cleanup_entry_views [simp]:
  "views_processed (snd (cleanup_entry e acc)) = views_processed (snd acc)"
  by (simp add: cleanup_entry_def Let_def split_beta prim views_processed_def
      split: outcome.split)

lemma cleanup_entry_files:
  "set (files (snd (cleanup_entry e acc))) \<subseteq> set (files (snd acc))"
  by (auto simp: cleanup_entry_def Let_def split_beta prim split: outcome.split option.splits)



lemma cleanup_loop_fields [simp]:
  "props (snd (fold cleanup_entry es acc)) = props (snd acc)"
  "images (snd (fold cleanup_entry es acc)) = images (snd acc)"
  "dirs (snd (fold cleanup_entry es acc)) = dirs (snd acc)"
  "os_error (snd (fold cleanup_entry es acc)) = os_error (snd acc)"
  "objects (snd (fold cleanup_entry es acc)) = objects (snd acc)"
  "active_object (snd (fold cleanup_entry es acc)) = active_object (snd acc)"
  "scene_camera (snd (fold cleanup_entry es acc)) = scene_camera (snd acc)"
  "timers (snd (fold cleanup_entry es acc)) = timers (snd acc)"
  "host_ops (snd (fold cleanup_entry es acc)) = host_ops (snd acc)"
  "painted (snd (fold cleanup_entry es acc)) = painted (snd acc)"
  "views_processed (snd (fold cleanup_entry es acc)) = views_processed (snd acc)"
  by (induction es arbitrary: acc; simp)+

lemma cleanup_loop_files:
  "set (files (snd (fold cleanup_entry es acc))) \<subseteq> set (files (snd acc))"
proof (induction es arbitrary: acc)
  case Nil
  show ?case by simp
next
  case (Cons e es)
  have "set (files (snd (fold cleanup_entry es (cleanup_entry e acc))))
          \<subseteq> set (files (snd (cleanup_entry e acc)))"
    by (rule Cons.IH)
  also have "\<dots> \<subseteq> set (files (snd acc))"
    by (rule cleanup_entry_files)
  finally show ?case by simp
qed



text \<open>What \<open>cleanup\<close> leaves behind.\<close>

lemma cleanup_temp_files [simp]: "temp_files (fst (cleanup self w)) = []"
  by (simp add: cleanup_def Let_def split_beta)

lemma cleanup_other_fields [simp]:
  "obj (fst (cleanup self w)) = obj self"
  "camera (fst (cleanup self w)) = camera self"
  "bake_image (fst (cleanup self w)) = bake_image self"
  "settings (fst (cleanup self w)) = settings self"
  "original_nodes (fst (cleanup self w)) = original_nodes self"
  "distance_cache (fst (cleanup self w)) = distance_cache self"
  "view_cache (fst (cleanup self w)) = view_cache self"
  by (simp_all add: cleanup_def Let_def split_beta)

lemma cleanup_world_fields [simp]:
  "props (snd (cleanup self w)) = props w"
  "os_error (snd (cleanup self w)) = os_error w"
  "objects (snd (cleanup self w)) = objects w"
  "active_object (snd (cleanup self w)) = active_object w"
  "scene_camera (snd (cleanup self w)) = scene_camera w"
  "timers (snd (cleanup self w)) = timers w"
  "host_ops (snd (cleanup self w)) = host_ops w"
  "painted (snd (cleanup self w)) = painted w"
  by (simp_all add: cleanup_def Let_def split_beta prim split: outcome.split)

lemma cleanup_views [simp]: "views_processed (snd (cleanup self w)) = views_processed w"
proof -
  have a: "views_processed (snd (os_rmdir d u)) = views_processed u" for d u
    by (rule views_processed_same_stdout) simp
  have b: "views_processed (batch_remove ns u) = views_processed u" for ns u
    by (rule views_processed_same_stdout) (simp add: batch_remove_def)
  show ?thesis
    by (simp add: cleanup_def Let_def split_beta views_processed_print a b split: outcome.split)
qed


lemma cleanup_files_subset: "set (files (snd (cleanup self w))) \<subseteq> set (files w)"
proof -
  have "files (snd (cleanup self w)) =
          files (snd (fold cleanup_entry (temp_files self)
                       ([], print ''Cleaning up resources...'' w)))"
    by (simp add: cleanup_def Let_def split_beta prim split: outcome.split)
  then show ?thesis
    using cleanup_loop_files [of "temp_files self" "([], print ''Cleaning up resources...'' w)"]
    by (simp add: print_def)
qed


section \<open>The operator's cleanup\<close>

lemma baker_cleanup_operator [simp]:
  "timer (fst (baker_cleanup self w)) = timer self"
  "camera_angles (fst (baker_cleanup self w)) = camera_angles self"
  "current_angle_index (fst (baker_cleanup self w)) = current_angle_index self"
  by (simp_all add: baker_cleanup_def Let_def split_beta split: option.split)

lemma baker_cleanup_projector:
  "projector (fst (baker_cleanup self w)) =
     map_option (\<lambda>p. fst (cleanup p (snd (baker_cleanup (self\<lparr>projector := None\<rparr>) w))))
       (projector self)"
  by (simp add: baker_cleanup_def Let_def split_beta split: option.split)

lemma baker_cleanup_temp_files [simp]:
  "map_option temp_files (projector (fst (baker_cleanup self w))) =
     map_option (\<lambda>p. []) (projector self)"
  by (simp add: baker_cleanup_def Let_def split_beta split: option.split)

lemma baker_cleanup_settings [simp]:
  "operator_settings (fst (baker_cleanup self w)) = operator_settings self"
  by (simp add: operator_settings_def baker_cleanup_def Let_def split_beta split: option.split)

lemma baker_cleanup_world [simp]:
  "props (snd (baker_cleanup self w)) = (props w)\<lparr>is_baking := False\<rparr>"
  "os_error (snd (baker_cleanup self w)) = os_error w"
  "host_ops (snd (baker_cleanup self w)) = host_ops w"
  "painted (snd (baker_cleanup self w)) = painted w"
  by (simp_all add: baker_cleanup_def Let_def split_beta prim split: option.split)

lemma baker_cleanup_views [simp]:
  "views_processed (snd (baker_cleanup self w)) = views_processed w"
proof -
  have a: "views_processed (objects_remove c u) = views_processed u" for c u
    by (rule views_processed_same_stdout) (simp add: objects_remove_def)
  have b: "views_processed (event_timer_remove t u) = views_processed u" for t u
    by (rule views_processed_same_stdout) (simp add: event_timer_remove_def)
  have c: "views_processed (u\<lparr>props := x\<rparr>) = views_processed u" for x u
    by (rule views_processed_same_stdout) simp
  show ?thesis
    by (simp add: baker_cleanup_def Let_def split_beta a b c split: option.split)
qed



lemma baker_cleanup_objects:
  "objects (snd (baker_cleanup self w)) n = Some ob \<Longrightarrow> objects w n = Some ob"
  by (simp add: baker_cleanup_def Let_def split_beta prim split: option.splits if_splits)



section \<open>The per-view processing does not read the cancel flag\<close>

lemma set_cancel_fields [simp]:
  "attrs (set_cancel b w) = attrs w"
  "images (set_cancel b w) = images w"
  "files (set_cancel b w) = files w"
  "dirs (set_cancel b w) = dirs w"
  "os_error (set_cancel b w) = os_error w"
  "areas (set_cancel b w) = areas w"
  "objects (set_cancel b w) = objects w"
  "active_object (set_cancel b w) = active_object w"
  "scene_camera (set_cancel b w) = scene_camera w"
  "now (set_cancel b w) = now w"
  "render_secs (set_cancel b w) = render_secs w"
  "render_error (set_cancel b w) = render_error w"
  "render_writes (set_cancel b w) = render_writes w"
  "project_error (set_cancel b w) = project_error w"
  "host_ops (set_cancel b w) = host_ops w"
  "painted (set_cancel b w) = painted w"
  "saved (set_cancel b w) = saved w"
  "stdout (set_cancel b w) = stdout w"
  by (simp_all add: set_cancel_def)

lemma set_cancel_updates [simp]:
  "(set_cancel b w)\<lparr>attrs := x1\<rparr> = set_cancel b (w\<lparr>attrs := x1\<rparr>)"
  "(set_cancel b w)\<lparr>images := x2\<rparr> = set_cancel b (w\<lparr>images := x2\<rparr>)"
  "(set_cancel b w)\<lparr>files := x3\<rparr> = set_cancel b (w\<lparr>files := x3\<rparr>)"
  "(set_cancel b w)\<lparr>objects := x4\<rparr> = set_cancel b (w\<lparr>objects := x4\<rparr>)"
  "(set_cancel b w)\<lparr>active_object := x5\<rparr> = set_cancel b (w\<lparr>active_object := x5\<rparr>)"
  "(set_cancel b w)\<lparr>scene_camera := x6\<rparr> = set_cancel b (w\<lparr>scene_camera := x6\<rparr>)"
  "(set_cancel b w)\<lparr>now := x7\<rparr> = set_cancel b (w\<lparr>now := x7\<rparr>)"
  "(set_cancel b w)\<lparr>host_ops := x8\<rparr> = set_cancel b (w\<lparr>host_ops := x8\<rparr>)"
  "(set_cancel b w)\<lparr>painted := x9\<rparr> = set_cancel b (w\<lparr>painted := x9\<rparr>)"
  "(set_cancel b w)\<lparr>saved := x10\<rparr> = set_cancel b (w\<lparr>saved := x10\<rparr>)"
  "(set_cancel b w)\<lparr>stdout := x11\<rparr> = set_cancel b (w\<lparr>stdout := x11\<rparr>)"
  by (simp_all add: set_cancel_def)

lemma set_attr_cancel [simp]: "set_attr t a v (set_cancel b w) = set_cancel b (set_attr t a v w)"
  by (simp add: set_attr_def)

lemma set_attrs_cancel [simp]: "set_attrs t kvs (set_cancel b w) = set_cancel b (set_attrs t kvs w)"
  by (simp add: set_attrs_eq)

lemma print_cancel [simp]: "print l (set_cancel b w) = set_cancel b (print l w)"
  by (simp add: print_def)

lemma host_op_cancel [simp]: "host_op l (set_cancel b w) = set_cancel b (host_op l w)"
  by (simp add: host_op_def)

lemma mode_set_cancel [simp]: "mode_set m (set_cancel b w) = set_cancel b (mode_set m w)"
  by (simp add: mode_set_def split: option.split)

lemma path_exists_cancel [simp]: "path_exists p (set_cancel b w) = path_exists p w"
  by (simp add: path_exists_def)

lemma distance_body_cancel [simp]:
  "calculate_optimal_distance_body (self, set_cancel b w) = calculate_optimal_distance_body (self, w)"
  by (intro ext)
     (simp add: calculate_optimal_distance_body_def Let_def cong: outcome.case_cong option.case_cong)

lemma view_body_cancel [simp]:
  "get_view_parameters_body (self, set_cancel b w) = get_view_parameters_body (self, w)"
  by (intro ext)
     (simp add: get_view_parameters_body_def Let_def cong: outcome.case_cong option.case_cong)

lemma calculate_optimal_distance_cancel [simp]:
  "calculate_optimal_distance self (set_cancel b w) = calculate_optimal_distance self w"
  by (intro ext) (simp add: calculate_optimal_distance_def memoize_def Let_def split: option.split)

lemma get_view_parameters_cancel [simp]:
  "get_view_parameters self (set_cancel b w) = get_view_parameters self w"
  by (intro ext) (simp add: get_view_parameters_def memoize_def Let_def split: option.split)

lemma view3d_context_cancel [simp]:
  "view3d_context self (set_cancel b w) = view3d_context self w"
  by (simp add: view3d_context_def cong: option.case_cong)

lemma position_camera_cancel:
  "position_camera self (set_cancel b w) h v =
     (case position_camera self w h v of (r, s, w') \<Rightarrow> (r, s, set_cancel b w'))"
  by (simp add: position_camera_def Let_def split_beta split: option.split outcome.split)

lemma configure_cancel [simp]:
  "configure_viewport a (set_cancel b w) = set_cancel b (configure_viewport a w)"
  "configure_render self p (set_cancel b w) = set_cancel b (configure_render self p w)"
  "configure_image_paint self (set_cancel b w) = set_cancel b (configure_image_paint self w)"
  by (simp_all add: config_defs)

lemma setup_viewport_cancel:
  "setup_viewport self (set_cancel b w) =
     (case setup_viewport self w of (r, s, w') \<Rightarrow> (r, s, set_cancel b w'))"
  by (simp add: setup_viewport_def split_beta split: outcome.split)

lemma object_mode_enter_cancel:
  "object_mode_enter self m (set_cancel b w) =
     (case object_mode_enter self m w of (r, w') \<Rightarrow> (r, set_cancel b w'))"
  by (simp add: object_mode_enter_def split: option.split)

lemma object_mode_exit_cancel [simp]:
  "object_mode_exit om m (set_cancel b w) = set_cancel b (object_mode_exit om m w)"
  by (simp add: object_mode_exit_def)

lemma render_still_cancel:
  "render_still p (set_cancel b w) =
     (case render_still p w of (r, w') \<Rightarrow> (r, set_cancel b w'))"
  by (simp add: render_still_def Let_def split: option.split)

lemma restore_render_cancel [simp]:
  "restore_render os (set_cancel b w) = set_cancel b (restore_render os w)"
  by (simp add: restore_render_eq)

lemma failed_cancel [simp]:
  "render_failed e (set_cancel b w) = set_cancel b (render_failed e w)"
  "projection_failed e (set_cancel b w) = set_cancel b (projection_failed e w)"
  by (simp_all add: render_failed_def projection_failed_def)

lemma create_temp_render_cancel:
  "create_temp_render self (set_cancel b w) =
     (case create_temp_render self w of (r, s, w') \<Rightarrow> (r, s, set_cancel b w'))"
  by (simp add: create_temp_render_def Let_def render_still_cancel split_beta split: outcome.split)

lemma project_from_view_cancel [simp]:
  "project_from_view self a r (set_cancel b w) = set_cancel b (project_from_view self a r w)"
  by (simp add: project_from_view_def Let_def split: option.split)

lemma project_texture_cancel:
  "project_texture self (set_cancel b w) a c t =
     (case project_texture self w a c t of (r, s, w') \<Rightarrow> (r, s, set_cancel b w'))"
  by (simp add: project_texture_def Let_def object_mode_enter_cancel
      create_temp_render_cancel split_beta split: outcome.split option.split)

lemma render_view_cancel:
  "render_view self (set_cancel b w) v h c t =
     (case render_view self w v h c t of (r, s, w') \<Rightarrow> (r, s, set_cancel b w'))"
  by (simp add: render_view_def position_camera_cancel setup_viewport_cancel project_texture_cancel
      split_beta split: outcome.split)

section \<open>The settings are only read\<close>

lemma view3d_context_settings [simp]:
  "settings (snd (view3d_context self w)) = settings self"
  by (simp add: view3d_context_def split: option.split)

lemma setup_material_nodes_settings [simp]:
  "settings (fst (snd (setup_material_nodes self w))) = settings self"
  by (simp add: setup_material_nodes_def Let_def split_beta split: option.split list.split)

lemma setup_camera_settings [simp]:
  "settings (fst (setup_camera self w)) = settings self"
  by (simp add: setup_camera_def Let_def)

lemma calculate_optimal_distance_settings [simp]:
  "settings (snd (calculate_optimal_distance self w a k)) = settings self"
  by (simp add: calculate_optimal_distance_def split_beta)

lemma get_view_parameters_settings [simp]:
  "settings (snd (get_view_parameters self w a k)) = settings self"
  by (simp add: get_view_parameters_def split_beta)

lemma position_camera_settings [simp]:
  "settings (fst (snd (position_camera self w h v))) = settings self"
  by (simp add: position_camera_def Let_def split_beta split: option.split outcome.split)

lemma setup_viewport_settings [simp]:
  "settings (fst (snd (setup_viewport self w))) = settings self"
  by (simp add: setup_viewport_def split_beta split: outcome.split)

lemma create_temp_render_settings [simp]:
  "settings (fst (snd (create_temp_render self w))) = settings self"
  by (simp add: create_temp_render_def Let_def split_beta split: outcome.split)

lemma project_texture_settings [simp]:
  "settings (fst (snd (project_texture self w a c t))) = settings self"
  by (simp add: project_texture_def Let_def split_beta split: outcome.split option.split)

lemma render_view_settings [simp]:
  "settings (fst (snd (render_view self w v h c t))) = settings self"
  by (simp add: render_view_def split_beta split: outcome.split)

lemma process_views_settings [simp]:
  "settings (fst (process_views as i t self w)) = settings self"
proof (induction as arbitrary: i self w)
  case Nil
  show ?case by simp
next
  case (Cons a as)
  have "settings (fst (snd (render_view self w (Some (fst a)) (snd a) i t))) = settings self"
    by simp
  with Cons show ?case
    by (simp add: split_beta split: outcome.split)
qed

lemma setup_op_settings:
  "op \<in> set setup_ops \<Longrightarrow> settings (fst (snd (snd op self w))) = settings self"
  by (auto simp: setup_ops_def split_beta)

lemma run_ops_settings:
  "set ops \<subseteq> set setup_ops \<Longrightarrow> settings (fst (snd (run_ops ops wrap self w))) = settings self"
proof (induction ops arbitrary: self w)
  case Nil
  show ?case by simp
next
  case (Cons op ops)
  then have "settings (fst (snd (snd op self w))) = settings self"
    by (simp add: setup_op_settings)
  with Cons show ?case
    by (simp add: split_beta split: outcome.split)
qed

lemma process_body_settings [simp]:
  "settings (fst (snd (process_body self w))) = settings self"
  by (simp add: process_body_def Let_def split_beta run_ops_settings
      split: outcome.split option.split bool.split)

lemma process_settings [simp]:
  "settings (fst (snd (process self w))) = settings self"
  by (simp add: process_def split_beta)

section \<open>The properties during setup\<close>

lemma makedirs_props [simp]:
  "props (snd (makedirs d w)) = props w" "abspath (snd (makedirs d w)) = abspath w"
  "timers (snd (makedirs d w)) = timers w" "next_timer (snd (makedirs d w)) = next_timer w"
  by (simp_all add: makedirs_def split: option.split)

lemma optimize_area_fold [simp]:
  "props (fold optimize_area is w) = props w"
  "timers (fold optimize_area is w) = timers w"
  "next_timer (fold optimize_area is w) = next_timer w"
  by (induction "is" arbitrary: w; simp add: optimize_area_def set_attrs_eq)+

lemma optimize_render_settings_props [simp]:
  "props (optimize_render_settings w) = props w"
  "timers (optimize_render_settings w) = timers w"
  "next_timer (optimize_render_settings w) = next_timer w"
  by (simp_all add: optimize_render_settings_def optimize_eevee_def Let_def set_attrs_eq)

lemma new_TextureProjector_props [simp]:
  "props (snd (new_TextureProjector st w)) = props w"
  "timers (snd (new_TextureProjector st w)) = timers w"
  "next_timer (snd (new_TextureProjector st w)) = next_timer w"
  by (simp_all add: new_TextureProjector_def setup_directories_def Let_def split_beta
      split: outcome.split)

lemma new_TextureProjector_settings:
  "fst (new_TextureProjector st w) = Returned p \<Longrightarrow> settings p = st"
  by (auto simp: new_TextureProjector_def split_beta split: outcome.splits)

lemma object_mode_enter_props [simp]:
  "props (snd (object_mode_enter self m w)) = props w"
  "timers (snd (object_mode_enter self m w)) = timers w"
  "next_timer (snd (object_mode_enter self m w)) = next_timer w"
  by (simp_all add: object_mode_enter_def mode_set_def split: option.split)

lemma object_mode_exit_props [simp]:
  "props (object_mode_exit om m w) = props w"
  "timers (object_mode_exit om m w) = timers w"
  "next_timer (object_mode_exit om m w) = next_timer w"
  by (simp_all add: object_mode_exit_def mode_set_def split: option.split)

lemma create_uv_map_props [simp]:
  "props (snd (create_uv_map self w)) = props w"
  "timers (snd (create_uv_map self w)) = timers w"
  "next_timer (snd (create_uv_map self w)) = next_timer w"
  by (simp_all add: create_uv_map_def Let_def split_beta prim split: option.split outcome.split)

lemma create_bake_image_props [simp]:
  "props (snd (create_bake_image self w)) = props w"
  "timers (snd (create_bake_image self w)) = timers w"
  "next_timer (snd (create_bake_image self w)) = next_timer w"
  by (simp_all add: create_bake_image_def cleanup_render_view_image_def Let_def prim
      config_defs set_attrs_eq)

lemma setup_material_nodes_props [simp]:
  "props (snd (snd (setup_material_nodes self w))) = props w"
  "timers (snd (snd (setup_material_nodes self w))) = timers w"
  "next_timer (snd (snd (setup_material_nodes self w))) = next_timer w"
  by (simp_all add: setup_material_nodes_def first_material_def Let_def split_beta prim
      config_defs set_attrs_eq split: option.split list.split)

lemma setup_camera_props [simp]:
  "props (snd (setup_camera self w)) = props w"
  "timers (snd (setup_camera self w)) = timers w"
  "next_timer (snd (setup_camera self w)) = next_timer w"
  by (simp_all add: setup_camera_def Let_def config_defs set_attrs_eq)

lemma setup_op_props:
  "op \<in> set setup_ops \<Longrightarrow>
   props (snd (snd (snd op self w))) = props w \<and> timers (snd (snd (snd op self w))) = timers w \<and>
   next_timer (snd (snd (snd op self w))) = next_timer w"
  by (auto simp: setup_ops_def split_beta)

lemma run_ops_props:
  "set ops \<subseteq> set setup_ops \<Longrightarrow>
   props (snd (snd (run_ops ops wrap self w))) = props w \<and>
   timers (snd (snd (run_ops ops wrap self w))) = timers w \<and>
   next_timer (snd (snd (run_ops ops wrap self w))) = next_timer w"
proof (induction ops arbitrary: self w)
  case Nil
  show ?case by simp
next
  case (Cons op ops)
  then have "props (snd (snd (snd op self w))) = props w \<and>
             timers (snd (snd (snd op self w))) = timers w \<and>
             next_timer (snd (snd (snd op self w))) = next_timer w"
    by (simp add: setup_op_props)
  with Cons show ?case
    by (simp add: split_beta split: outcome.split)
qed

lemma apply_quality_preset_props [simp]:
  "props (apply_quality_preset prefs w) = props w"
  "abspath (apply_quality_preset prefs w) = abspath w"
  "timers (apply_quality_preset prefs w) = timers w"
  "next_timer (apply_quality_preset prefs w) = next_timer w"
  by (simp_all add: apply_quality_preset_def set_attrs_eq)


section \<open>What the processing of a view changes\<close>

lemma render_still_fields [simp]:
  "stdout (snd (render_still p w)) = stdout w"
  "objects (snd (render_still p w)) = objects w"
  "scene_camera (snd (render_still p w)) = scene_camera w"
  "props (snd (render_still p w)) = props w"
  "areas (snd (render_still p w)) = areas w"
  "project_error (snd (render_still p w)) = project_error w"
  by (simp_all add: render_still_def Let_def prim split: option.split)

lemma object_mode_enter_fields [simp]:
  "stdout (snd (object_mode_enter self m w)) = stdout w"
  "scene_camera (snd (object_mode_enter self m w)) = scene_camera w"
  "areas (snd (object_mode_enter self m w)) = areas w"
  by (simp_all add: object_mode_enter_def split: option.split)

lemma object_mode_exit_fields [simp]:
  "stdout (object_mode_exit om m w) = stdout w"
  "scene_camera (object_mode_exit om m w) = scene_camera w"
  "areas (object_mode_exit om m w) = areas w"
  by (simp_all add: object_mode_exit_def)

lemma placements_mode_set [simp]: "placements (mode_set m w) = placements w"
  by (rule ext) (simp add: placements_def mode_set_def split: option.split)

lemma placements_same_objects: "objects w' = objects w \<Longrightarrow> placements w' = placements w"
  by (rule ext) (simp add: placements_def)

lemma placements_object_mode [simp]:
  "placements (snd (object_mode_enter self m w)) = placements w"
  "placements (object_mode_exit om m w) = placements w"
  by (simp_all add: object_mode_enter_def object_mode_exit_def split: option.split)

lemma configure_render_fields [simp]:
  "objects (configure_render self p w) = objects w"
  "scene_camera (configure_render self p w) = scene_camera w"
  "props (configure_render self p w) = props w"
  "stdout (configure_render self p w) = stdout w"
  "areas (configure_render self p w) = areas w"
  by (simp_all add: config_defs set_attrs_eq)

lemma restore_render_fields [simp]:
  "objects (restore_render os w) = objects w"
  "scene_camera (restore_render os w) = scene_camera w"
  "props (restore_render os w) = props w"
  "stdout (restore_render os w) = stdout w"
  "areas (restore_render os w) = areas w"
  by (simp_all add: restore_render_eq)

lemma create_temp_render_fields [simp]:
  "objects (snd (snd (create_temp_render self w))) = objects w"
  "scene_camera (snd (snd (create_temp_render self w))) = scene_camera w"
  "props (snd (snd (create_temp_render self w))) = props w"
  "areas (snd (snd (create_temp_render self w))) = areas w"
  by (simp_all add: create_temp_render_def Let_def split_beta prim split: outcome.split)

lemma create_temp_render_views [simp]:
  "views_processed (snd (snd (create_temp_render self w))) = views_processed w"
  by (simp add: create_temp_render_def Let_def split_beta prim views_processed_def
      split: outcome.split)

lemma project_from_view_fields [simp]:
  "objects (project_from_view self a r w) = objects w"
  "scene_camera (project_from_view self a r w) = scene_camera w"
  "props (project_from_view self a r w) = props w"
  "views_processed (project_from_view self a r w) = views_processed w"
  by (simp_all add: project_from_view_def Let_def prim views_processed_def split: option.split)

lemma configure_image_paint_fields [simp]:
  "objects (configure_image_paint self w) = objects w"
  "scene_camera (configure_image_paint self w) = scene_camera w"
  "props (configure_image_paint self w) = props w"
  "stdout (configure_image_paint self w) = stdout w"
  "areas (configure_image_paint self w) = areas w"
  by (simp_all add: config_defs set_attrs_eq)

lemma configure_viewport_fields [simp]:
  "objects (configure_viewport a w) = objects w"
  "scene_camera (configure_viewport a w) = scene_camera w"
  "props (configure_viewport a w) = props w"
  "stdout (configure_viewport a w) = stdout w"
  by (simp_all add: config_defs set_attrs_eq)


lemma project_texture_props [simp]:
  "props (snd (snd (project_texture self w a c t))) = props w"
  by (simp add: project_texture_def Let_def split_beta print_def split: outcome.split option.split)

lemma project_texture_scene_camera [simp]:
  "scene_camera (snd (snd (project_texture self w a c t))) = scene_camera w"
  by (simp add: project_texture_def Let_def split_beta print_def split: outcome.split option.split)

lemma project_texture_placements [simp]:
  "placements (snd (snd (project_texture self w a c t))) = placements w"
proof -
  have a: "placements (u\<lparr>active_object := x\<rparr>) = placements u" for x u
    by (rule placements_same_objects) simp
  have b: "placements (configure_image_paint self u) = placements u" for u
    by (rule placements_same_objects) simp
  have c: "placements (print l u) = placements u" for l u
    by (rule placements_same_objects) (simp add: print_def)
  have d: "placements (snd (snd (create_temp_render s u))) = placements u" for s u
    by (rule placements_same_objects) simp
  have e: "placements (project_from_view s i r u) = placements u" for s i r u
    by (rule placements_same_objects) simp
  show ?thesis
    by (simp add: project_texture_def Let_def split_beta a b c d e
        split: outcome.split option.split)
qed

lemma project_texture_temp_files:
  "set (temp_files self) \<subseteq> set (temp_files (fst (snd (project_texture self w a c t))))"
  by (auto simp: project_texture_def create_temp_render_def view3d_context_def Let_def split_beta
      split: outcome.split option.split)

lemma position_camera_fields [simp]:
  "stdout (snd (snd (position_camera self w h v))) = stdout w"
  "props (snd (snd (position_camera self w h v))) = props w"
  by (simp_all add: position_camera_def Let_def split_beta split: outcome.split option.split)

lemma setup_viewport_fields [simp]:
  "stdout (snd (snd (setup_viewport self w))) = stdout w"
  "props (snd (snd (setup_viewport self w))) = props w"
  by (simp_all add: setup_viewport_def split_beta split: outcome.split)


lemma render_view_props [simp]:
  "props (snd (snd (render_view self w v h c t))) = props w"
  by (simp add: render_view_def split_beta split: outcome.split)


section \<open>What \<open>execute\<close> sets up\<close>

lemma event_timer_add_result:
  "event_timer_add i w = (next_timer w, w\<lparr>timers := timers w @ [(next_timer w, i)],
                                          next_timer := next_timer w + 1\<rparr>)"
  by (simp add: event_timer_add_def)

text \<open>When \<open>execute\<close> returns \<open>RUNNING_MODAL\<close> it has built a projector from the
  properties, registered one timer with a step of 0.1 seconds and set the properties
  for the run.\<close>

lemma run_setup_frame:
  "run_ops setup_ops wrap p w = (r, p', w') \<Longrightarrow>
   props w' = props w \<and> timers w' = timers w \<and> next_timer w' = next_timer w \<and>
   settings p' = settings p"
  using run_ops_props [of setup_ops wrap p w] run_ops_settings [of setup_ops wrap p w]
  by simp

lemma new_projector_frame:
  "new_TextureProjector st w = (r, w') \<Longrightarrow>
   props w' = props w \<and> timers w' = timers w \<and> next_timer w' = next_timer w \<and>
   (\<forall>p. r = Returned p \<longrightarrow> settings p = st)"
  using new_TextureProjector_props [of st w] new_TextureProjector_settings [of st w]
  by auto

lemma twelve_angles: "length (generate_camera_angles q) = 12"
  by (simp add: generate_camera_angles_def)

lemma baker_execute_body_running:
  assumes "baker_execute_body self w = (Returned RUNNING_MODAL, self', w')"
  shows "\<exists>p. projector self' = Some p \<and>
           settings p = new_ProjectionSettings (p_resolution (props w)) (file_name (props w))
                          (abspath w (output_directory (props w))) (p_seam_bleed (props w)) \<and>
           timer self' = Some (next_timer w) \<and>
           timers w' = timers w @ [(next_timer w, 0.1)] \<and>
           current_angle_index self' = current_angle_index self \<and>
           camera_angles self' =
             (if auto_bake (props w)
              then map (\<lambda>a. (Some (fst a), snd a)) (generate_camera_angles p)
              else [(None, 0)]) \<and>
           props w' =
             (props w)\<lparr>is_baking := True, progress := 0, should_cancel := False,
                         total_steps := (if auto_bake (props w) then 12 else 1)\<rparr>"
  using assms
  by (auto simp: baker_execute_body_def Let_def event_timer_add_def twelve_angles
      split: option.splits outcome.splits prod.splits if_splits
      dest!: run_setup_frame new_projector_frame)

lemma baker_execute_body_of_running:
  "fst (baker_execute self w) = RUNNING_MODAL \<Longrightarrow>
   baker_execute_body self w = (Returned RUNNING_MODAL, snd (baker_execute self w))"
  by (cases "baker_execute_body self w" rule: prod_cases3)
     (auto simp: baker_execute_def split_beta split: outcome.splits)

lemma baker_execute_running:
  assumes run: "fst (baker_execute self w) = RUNNING_MODAL"
  shows "\<exists>p. projector (fst (snd (baker_execute self w))) = Some p \<and>
           settings p = new_ProjectionSettings (p_resolution (props w)) (file_name (props w))
                          (abspath w (output_directory (props w))) (p_seam_bleed (props w)) \<and>
           timer (fst (snd (baker_execute self w))) = Some (next_timer w) \<and>
           timers (snd (snd (baker_execute self w))) = timers w @ [(next_timer w, 0.1)] \<and>
           current_angle_index (fst (snd (baker_execute self w))) = current_angle_index self \<and>
           camera_angles (fst (snd (baker_execute self w))) =
             (if auto_bake (props w)
              then map (\<lambda>a. (Some (fst a), snd a)) (generate_camera_angles p)
              else [(None, 0)]) \<and>
           props (snd (snd (baker_execute self w))) =
             (props w)\<lparr>is_baking := True, progress := 0, should_cancel := False,
                         total_steps := (if auto_bake (props w) then 12 else 1)\<rparr>"
proof -
  have "baker_execute_body self w =
          (Returned RUNNING_MODAL, fst (snd (baker_execute self w)), snd (snd (baker_execute self w)))"
    using baker_execute_body_of_running [OF run] by simp
  then show ?thesis
    by (rule baker_execute_body_running)
qed

lemma baker_execute_body_settings:
  assumes "baker_execute_body self w = (r, self', w')"
  shows "operator_settings self' = operator_settings self \<or>
         operator_settings self' =
           Some (new_ProjectionSettings (p_resolution (props w)) (file_name (props w))
                   (abspath w (output_directory (props w))) (p_seam_bleed (props w)))"
  using assms
  by (auto simp: baker_execute_body_def operator_settings_def Let_def event_timer_add_def
      split: option.splits outcome.splits prod.splits if_splits
      dest!: run_setup_frame new_projector_frame)

lemma baker_execute_settings:
  "operator_settings (fst (snd (baker_execute self w))) = operator_settings self \<or>
   operator_settings (fst (snd (baker_execute self w))) =
     Some (new_ProjectionSettings (p_resolution (props w)) (file_name (props w))
             (abspath w (output_directory (props w))) (p_seam_bleed (props w)))"
proof -
  obtain r self' w' where body: "baker_execute_body self w = (r, self', w')"
    by (cases "baker_execute_body self w" rule: prod_cases3)
  have "operator_settings (fst (snd (baker_execute self w))) = operator_settings self'"
    by (cases r) (simp_all add: baker_execute_def body split_beta)
  then show ?thesis
    using baker_execute_body_settings [OF body] by simp
qed

section \<open>What one call of \<open>modal\<close> does\<close>

lemma baker_modal_settings:
  "operator_settings (fst (snd (baker_modal self w ev))) = operator_settings self"
proof -
  have a: "operator_settings (fst (baker_cleanup (s\<lparr>projector := Some q\<rparr>) u)) = Some (settings q)"
    for s q u
    using baker_cleanup_settings [of "s\<lparr>projector := Some q\<rparr>" u]
    by (simp add: operator_settings_def)
  show ?thesis
    by (simp add: baker_modal_def Let_def split_beta a split: option.split outcome.split)
       (simp add: operator_settings_def)
qed


section \<open>When the processing of a view returns and when it raises\<close>

lemma returns_simps [simp]: "returns (Returned x)" "\<not> returns (Raised e)"
  by (simp_all add: returns_def)

lemma returns_unit: "returns r \<Longrightarrow> r = Returned ()"
  by (cases r) simp_all

lemma returnsE: "returns r \<Longrightarrow> (\<And>x. r = Returned x \<Longrightarrow> thesis) \<Longrightarrow> thesis"
  by (cases r) simp_all

lemma bounds_nonempty: "cs \<noteq> [] \<Longrightarrow> bounds cs \<noteq> None"
  by (cases cs) (simp_all add: bounds_def)

lemma memoize_returns:
  "returns (f s args kwargs) \<Longrightarrow> returns (fst (memoize f cache s args kwargs))"
  by (cases "cache (args, set kwargs)"; cases "f s args kwargs")
     (simp_all add: memoize_def Let_def)

lemma get_view_parameters_returns:
  assumes "obj self = Some n" and "objects w n = Some ob" and "bound_box ob \<noteq> []"
  shows "returns (fst (get_view_parameters self w [v] []))"
proof -
  have "bounds (bbox_corners ob) \<noteq> None"
    using bounds_nonempty [of "bbox_corners ob"] assms(3) by (simp add: bbox_corners_def)
  then have "returns (get_view_parameters_body (self, w) [v] [])"
    using assms
    by (auto simp: get_view_parameters_body_def bind_view_type_def Let_def split: prod.split)
  then show ?thesis
    using memoize_returns [of get_view_parameters_body "(self, w)" "[v]" "[]"]
    by (simp add: get_view_parameters_def split_beta)
qed

lemma calculate_optimal_distance_returns:
  assumes "obj self = Some n" and "objects w n = Some ob" and "bound_box ob \<noteq> []"
    and "camera self = Some c" and "objects w c = Some cam" and "2 * tan (cam_angle cam / 2) \<noteq> 0"
  shows "returns (fst (calculate_optimal_distance self w [v] []))"
proof -
  have "bounds (bbox_corners ob) \<noteq> None"
    using bounds_nonempty [of "bbox_corners ob"] assms(3) by (simp add: bbox_corners_def)
  then have "returns (calculate_optimal_distance_body (self, w) [v] [])"
    using assms
    by (auto simp: calculate_optimal_distance_body_def bind_view_type_def Let_def
        split: prod.split)
  then show ?thesis
    using memoize_returns [of calculate_optimal_distance_body "(self, w)" "[v]" "[]"]
    by (simp add: calculate_optimal_distance_def split_beta)
qed

lemma memoized_projector_fields [simp]:
  "obj (snd (get_view_parameters self w a k)) = obj self"
  "camera (snd (get_view_parameters self w a k)) = camera self"
  "view3d_cache (snd (get_view_parameters self w a k)) = view3d_cache self"
  "bake_image (snd (get_view_parameters self w a k)) = bake_image self"
  "temp_files (snd (get_view_parameters self w a k)) = temp_files self"
  "obj (snd (calculate_optimal_distance self w a k)) = obj self"
  "camera (snd (calculate_optimal_distance self w a k)) = camera self"
  "view3d_cache (snd (calculate_optimal_distance self w a k)) = view3d_cache self"
  "bake_image (snd (calculate_optimal_distance self w a k)) = bake_image self"
  "temp_files (snd (calculate_optimal_distance self w a k)) = temp_files self"
  by (simp_all add: get_view_parameters_def calculate_optimal_distance_def split_beta)

lemma position_camera_projector [simp]:
  "obj (fst (snd (position_camera self w h v))) = obj self"
  "camera (fst (snd (position_camera self w h v))) = camera self"
  "view3d_cache (fst (snd (position_camera self w h v))) = view3d_cache self"
  "bake_image (fst (snd (position_camera self w h v))) = bake_image self"
  "temp_files (fst (snd (position_camera self w h v))) = temp_files self"
  by (simp_all add: position_camera_def Let_def split_beta split: outcome.split option.split)

lemma position_camera_areas [simp]:
  "areas (snd (snd (position_camera self w h v))) = areas w"
  by (simp add: position_camera_def Let_def split_beta split: outcome.split option.split)


lemma position_camera_keeps_shape:
  "objects w n = Some ob \<Longrightarrow>
   \<exists>ob'. objects (snd (snd (position_camera self w h v))) n = Some ob' \<and>
         bound_box ob' = bound_box ob \<and> cam_angle ob' = cam_angle ob"
  by (simp add: position_camera_def Let_def split_beta split: outcome.split option.split)

text \<open>\<open>position_camera\<close> returns when the object and the camera exist, the bounding
  box has corners and the field of view has a non-zero tangent.\<close>

lemma position_camera_returns:
  assumes "obj self = Some n" and "objects w n = Some ob" and "bound_box ob \<noteq> []"
    and "camera self = Some c" and "objects w c = Some cam" and "2 * tan (cam_angle cam / 2) \<noteq> 0"
  shows "fst (position_camera self w h v) = Returned ()"
proof -
  have x: "returns (fst (get_view_parameters self w [v] []))"
    by (rule get_view_parameters_returns [OF assms(1-3)])
  define self1 where "self1 = snd (get_view_parameters self w [v] [])"
  have d: "returns (fst (calculate_optimal_distance self1 w [v] []))"
    by (rule calculate_optimal_distance_returns [where n = n and ob = ob and c = c and cam = cam])
       (use assms in \<open>simp_all add: self1_def\<close>)
  have c1: "camera self1 = Some c"
    using assms(4) by (simp add: self1_def)
  have "returns (fst (position_camera self w h v))"
    using assms x d c1
    by (auto simp: position_camera_def Let_def split_beta self1_def [symmetric]
        elim!: returnsE)
  then show ?thesis
    by (rule returns_unit)
qed

text \<open>The viewport lookup: it raises exactly when nothing is cached and the screen has
  no 3D viewport.\<close>

lemma view3d_context_raises:
  assumes "view3d_cache self = None" and "\<forall>a \<in> set (areas w). area_type a \<noteq> ''VIEW_3D''"
  shows "view3d_context self w = (Raised (RuntimeError ''No 3D viewport found''), self)"
proof -
  have "find (\<lambda>i. area_type (areas w ! i) = ''VIEW_3D'') [0..<length (areas w)] = None"
    using assms(2) by (auto simp: find_None_iff)
  then show ?thesis
    using assms(1) by (simp add: view3d_context_def)
qed



lemma view3d_context_projector [simp]:
  "obj (snd (view3d_context self w)) = obj self"
  "camera (snd (view3d_context self w)) = camera self"
  "bake_image (snd (view3d_context self w)) = bake_image self"
  "temp_files (snd (view3d_context self w)) = temp_files self"
  by (simp_all add: view3d_context_def split: option.split)

lemma setup_viewport_raises:
  assumes "view3d_cache self = None" and "\<forall>a \<in> set (areas w). area_type a \<noteq> ''VIEW_3D''"
  shows "setup_viewport self w = (Raised (RuntimeError ''No 3D viewport found''), self, w)"
  by (simp add: setup_viewport_def view3d_context_raises [OF assms])


lemma setup_viewport_projector [simp]:
  "obj (fst (snd (setup_viewport self w))) = obj self"
  "camera (fst (snd (setup_viewport self w))) = camera self"
  "bake_image (fst (snd (setup_viewport self w))) = bake_image self"
  by (simp_all add: setup_viewport_def split_beta split: outcome.split)

lemma setup_viewport_objects [simp]:
  "objects (snd (snd (setup_viewport self w))) = objects w"
  by (simp add: setup_viewport_def split_beta split: outcome.split)


lemma project_texture_raises:
  assumes "obj self = Some n" and "objects w n = Some ob"
    and "view3d_cache self = None" and "\<forall>a \<in> set (areas w). area_type a \<noteq> ''VIEW_3D''"
  shows "fst (project_texture self w a c t) = Raised (RuntimeError ''No 3D viewport found'')"
proof -
  define w0 where "w0 = w\<lparr>active_object := obj self\<rparr>"
  have enter: "fst (object_mode_enter self texture_paint w0) = Returned (o_mode ob)"
    using assms(1,2) by (simp add: object_mode_enter_def w0_def)
  define w2 where "w2 = configure_image_paint self (snd (object_mode_enter self texture_paint w0))"
  have "areas w2 = areas w"
    by (simp add: w2_def w0_def)
  then have "view3d_context self w2 = (Raised (RuntimeError ''No 3D viewport found''), self)"
    using assms(3,4) by (simp add: view3d_context_raises)
  then show ?thesis
    using enter
    by (simp add: project_texture_def Let_def split_beta w0_def [symmetric] w2_def [symmetric])
qed


lemma render_view_raises:
  assumes "obj self = Some n" and "objects w n = Some ob" and "bound_box ob \<noteq> []"
    and "camera self = Some c" and "objects w c = Some cam" and "2 * tan (cam_angle cam / 2) \<noteq> 0"
    and "view3d_cache self = None" and "\<forall>a \<in> set (areas w). area_type a \<noteq> ''VIEW_3D''"
  shows "fst (render_view self w v h cnt tot) = Raised (RuntimeError ''No 3D viewport found'')"
    and "view3d_cache (fst (snd (render_view self w v h cnt tot))) = None"
    and "obj (fst (snd (render_view self w v h cnt tot))) = obj self"
    and "camera (fst (snd (render_view self w v h cnt tot))) = camera self"
    and "areas (snd (snd (render_view self w v h cnt tot))) = areas w"
    and "props (snd (snd (render_view self w v h cnt tot))) = props w"
    and "\<exists>ob' cam'. objects (snd (snd (render_view self w v h cnt tot))) n = Some ob' \<and>
           bound_box ob' \<noteq> [] \<and>
           objects (snd (snd (render_view self w v h cnt tot))) c = Some cam' \<and>
           2 * tan (cam_angle cam' / 2) \<noteq> 0"
proof -
  define r1 where "r1 = position_camera self w (real_of_int h) v"
  have p1: "fst r1 = Returned ()"
    unfolding r1_def by (rule position_camera_returns [OF assms(1-6)])
  have "setup_viewport (fst (snd r1)) (snd (snd r1)) =
          (Raised (RuntimeError ''No 3D viewport found''), fst (snd r1), snd (snd r1))"
    by (rule setup_viewport_raises) (use assms(7,8) in \<open>simp_all add: r1_def\<close>)
  then have rv: "render_view self w v h cnt tot =
          (Raised (RuntimeError ''No 3D viewport found''), fst (snd r1), snd (snd r1))"
    using p1 by (simp add: render_view_def split_beta r1_def [symmetric])
  show "fst (render_view self w v h cnt tot) = Raised (RuntimeError ''No 3D viewport found'')"
    and "view3d_cache (fst (snd (render_view self w v h cnt tot))) = None"
    and "obj (fst (snd (render_view self w v h cnt tot))) = obj self"
    and "camera (fst (snd (render_view self w v h cnt tot))) = camera self"
    and "areas (snd (snd (render_view self w v h cnt tot))) = areas w"
    and "props (snd (snd (render_view self w v h cnt tot))) = props w"
    using assms(7) by (simp_all add: rv r1_def)
  show "\<exists>ob' cam'. objects (snd (snd (render_view self w v h cnt tot))) n = Some ob' \<and>
           bound_box ob' \<noteq> [] \<and>
           objects (snd (snd (render_view self w v h cnt tot))) c = Some cam' \<and>
           2 * tan (cam_angle cam' / 2) \<noteq> 0"
    using position_camera_keeps_shape [OF assms(2), of self "real_of_int h" v]
      position_camera_keeps_shape [OF assms(5), of self "real_of_int h" v] assms(3,6)
    by (auto simp: rv r1_def)
qed


section \<open>The example scene after \<open>execute\<close>\<close>

lemmas eval_defs =
  baker_execute_def baker_execute_body_def example_world_def example_props_def
  new_EEVEE_OT_TextureBaker_def apply_quality_preset_def new_ProjectionSettings_def
  new_TextureProjector_def setup_directories_def dirname_def path_join_def makedirs_def
  optimize_render_settings_def optimize_eevee_def optimize_area_def set_attrs_def set_attr_def
  Let_def setup_ops_def
  create_uv_map_def example_cube_def object_mode_enter_def object_mode_exit_def mode_set_def
  host_op_def create_bake_image_def configure_bake_image_def setup_material_nodes_def
  first_material_def new_material_def set_use_nodes_def capture_original_def nodes_get_def
  surface_links_def default_nodes_def default_links_def add_bake_nodes_def
  configure_bake_nodes_def bake_uv_node_def bake_texture_node_def bake_uv_link_def links_new_def
  setup_camera_def configure_camera_def generate_camera_angles_def event_timer_add_def
  example_preferences_def example_camera_def cleanup_render_view_image_def batch_remove_def



lemma no_viewport_auto_state:
  "fst (baker_execute new_EEVEE_OT_TextureBaker no_viewport_world) = RUNNING_MODAL \<and>
   (\<exists>p ob. projector (fst no_viewport_auto) = Some p \<and> obj p = Some ''Cube'' \<and>
      camera p = Some ''BakeCamera'' \<and> view3d_cache p = None \<and> temp_files p = [] \<and>
      objects (snd no_viewport_auto) ''Cube'' = Some ob \<and> bound_box ob \<noteq> []) \<and>
   objects (snd no_viewport_auto) ''BakeCamera'' = Some example_camera \<and>
   areas (snd no_viewport_auto) = [\<lparr>area_type = ''IMAGE_EDITOR'', region_types = [''WINDOW'']\<rparr>]"
  by (simp add: no_viewport_auto_def no_viewport_world_def eval_defs)

lemma example_camera_fov: "2 * tan (cam_angle example_camera / 2) \<noteq> 0"
  by (simp add: example_camera_def tan_arctan)


section \<open>The camera angle sequence\<close>

text \<open>
  C1. \<open>generate_camera_angles\<close> returns exactly twelve (view category, azimuth)
  pairs: for each of \<open>below\<close>, \<open>total\<close>, \<open>upper\<close>, in that order, the azimuths
  0, 90, 180 and 270 degrees in that order. The result is the same for every projector,
  whatever its settings and whatever the state of the scene.
\<close>

theorem generate_camera_angles_fixed:
  "generate_camera_angles self =
     [(''below'', 0), (''below'', 90), (''below'', 180), (''below'', 270),
      (''total'', 0), (''total'', 90), (''total'', 180), (''total'', 270),
      (''upper'', 0), (''upper'', 90), (''upper'', 180), (''upper'', 270)]
   \<and> length (generate_camera_angles self) = 12"
  by (simp add: generate_camera_angles_def)

section \<open>Temporary render artifacts\<close>




section \<open>Cancellation\<close>

text \<open>
  C3. Whatever the event, a call of the modal handler that finds \<open>should_cancel\<close> set
  runs the operator's cleanup, resets the flag, reports and returns \<open>FINISHED\<close>; it
  processes no view, projects nothing, runs no host operator, leaves the angle index
  alone and moves no object (objects are at most removed). The cancel operator itself
  only writes three properties. The flag is read nowhere else: the processing of a view
  (\<open>render_view\<close>, and \<open>project_texture\<close> in single-shot mode) started with the flag
  at either value does the same and leaves the flag as it found it, so a cancellation
  cannot take effect inside the processing of an angle.
\<close>

theorem modal_cancel_is_polled:
  "(should_cancel (props w) \<longrightarrow>
      baker_modal self w ev =
        (Returned FINISHED, fst (baker_cleanup self w),
         report ''INFO'' ''Baking cancelled'' (set_cancel False (snd (baker_cleanup self w)))) \<and>
      \<not> should_cancel (props (snd (snd (baker_modal self w ev)))) \<and>
      \<not> is_baking (props (snd (snd (baker_modal self w ev)))) \<and>
      map_option temp_files (projector (fst (snd (baker_modal self w ev)))) =
        map_option (\<lambda>p. []) (projector self) \<and>
      views_processed (snd (snd (baker_modal self w ev))) = views_processed w \<and>
      painted (snd (snd (baker_modal self w ev))) = painted w \<and>
      host_ops (snd (snd (baker_modal self w ev))) = host_ops w \<and>
      current_angle_index (fst (snd (baker_modal self w ev))) = current_angle_index self \<and>
      (\<forall>n ob. objects (snd (snd (baker_modal self w ev))) n = Some ob \<longrightarrow>
               objects w n = Some ob)) \<and>
   cancel_execute w =
     (FINISHED, w\<lparr>props := (props w)\<lparr>should_cancel := True, is_baking := False, progress := 0\<rparr>\<rparr>) \<and>
   render_view p (set_cancel b w) v h c t =
     (case render_view p w v h c t of (r, p', w') \<Rightarrow> (r, p', set_cancel b w')) \<and>
   project_texture p (set_cancel b w) a c t =
     (case project_texture p w a c t of (r, p', w') \<Rightarrow> (r, p', set_cancel b w'))"
proof -
  have modal: "baker_modal self w ev =
      (Returned FINISHED, fst (baker_cleanup self w),
       report ''INFO'' ''Baking cancelled'' (set_cancel False (snd (baker_cleanup self w))))"
    if "should_cancel (props w)"
    using that by (simp add: baker_modal_def split_beta set_cancel_def)
  have views: "views_processed (report l m (set_cancel x u)) = views_processed u" for l m x u
    by (rule views_processed_same_stdout) (simp add: report_def)
  have objs: "objects w n = Some ob"
    if "objects (report l m (set_cancel x (snd (baker_cleanup self w)))) n = Some ob" for l m x n ob
    using that baker_cleanup_objects [of self w n ob] by (simp add: report_def)
  show ?thesis
    using objs
    by (auto simp: modal views render_view_cancel project_texture_cancel cancel_execute_def)
       (simp_all add: report_def set_cancel_def)
qed

theorem modal_cancel_is_polled_witness:
  "should_cancel (props (snd (cancel_execute (snd example_auto)))) \<and>
   fst (baker_modal (fst example_auto) (snd (cancel_execute (snd example_auto))) ''MOUSEMOVE'')
     = Returned FINISHED \<and>
   \<not> should_cancel (props (snd (snd
       (baker_modal (fst example_auto) (snd (cancel_execute (snd example_auto))) ''MOUSEMOVE'')))) \<and>
   views_processed (snd (snd
       (baker_modal (fst example_auto) (snd (cancel_execute (snd example_auto))) ''MOUSEMOVE'')))
     = views_processed (snd (cancel_execute (snd example_auto)))"
proof -
  have flag: "should_cancel (props (snd (cancel_execute (snd example_auto))))"
    by (simp add: cancel_execute_def)
  note polled = modal_cancel_is_polled
    [where w = "snd (cancel_execute (snd example_auto))" and self = "fst example_auto"
       and ev = "''MOUSEMOVE''" and p = example_projector and b = True and v = None
       and h = 0 and c = 1 and t = 1 and a = PNone]
  from polled flag
  have "baker_modal (fst example_auto) (snd (cancel_execute (snd example_auto))) ''MOUSEMOVE'' =
          (Returned FINISHED, fst (baker_cleanup (fst example_auto) (snd (cancel_execute (snd example_auto)))),
           report ''INFO'' ''Baking cancelled''
             (set_cancel False (snd (baker_cleanup (fst example_auto) (snd (cancel_execute (snd example_auto)))))))"
    by blast
  then have "fst (baker_modal (fst example_auto) (snd (cancel_execute (snd example_auto))) ''MOUSEMOVE'')
               = Returned FINISHED"
    by simp
  with polled flag show ?thesis by blast
qed

section \<open>Auto-bake: one angle per timer tick\<close>



section \<open>Single-shot mode\<close>



section \<open>A view that fails inside the modal handler\<close>

text \<open>
  C4 holds for \<open>TextureProjector.process\<close>, whose loop catches the exception of a
  view, prints it and goes on. The modal handler of the operator makes the same three
  calls without a handler. On a screen without a 3D viewport, the first timer tick
  after \<open>execute\<close> raises out of \<open>modal\<close>: the exception is not logged by the
  add-on, the angle index and the progress stay at 0 (the angle is not skipped), no
  cleanup runs (\<open>is_baking\<close> stays on and the timer stays registered), and a further
  tick does the same.
\<close>

theorem modal_view_error_escapes:
  "fst (baker_execute new_EEVEE_OT_TextureBaker no_viewport_world) = RUNNING_MODAL \<and>
   fst (baker_modal (fst no_viewport_auto) (snd no_viewport_auto) ''TIMER'') =
     Raised (RuntimeError ''No 3D viewport found'') \<and>
   current_angle_index (fst (snd (baker_modal (fst no_viewport_auto) (snd no_viewport_auto) ''TIMER''))) = 0 \<and>
   progress (props (snd (snd (baker_modal (fst no_viewport_auto) (snd no_viewport_auto) ''TIMER'')))) = 0 \<and>
   is_baking (props (snd (snd (baker_modal (fst no_viewport_auto) (snd no_viewport_auto) ''TIMER'')))) \<and>
   timers (snd no_viewport_auto) = [(0, 0.1)] \<and>
   fst (baker_modal
          (fst (snd (baker_modal (fst no_viewport_auto) (snd no_viewport_auto) ''TIMER'')))
          (snd (snd (baker_modal (fst no_viewport_auto) (snd no_viewport_auto) ''TIMER'')))
          ''TIMER'') = Raised (RuntimeError ''No 3D viewport found'')"
proof -
  from no_viewport_auto_state obtain p ob where
    run: "fst (baker_execute new_EEVEE_OT_TextureBaker no_viewport_world) = RUNNING_MODAL"
    and p: "projector (fst no_viewport_auto) = Some p" "obj p = Some ''Cube''"
      "camera p = Some ''BakeCamera''" "view3d_cache p = None"
    and ob: "objects (snd no_viewport_auto) ''Cube'' = Some ob" "bound_box ob \<noteq> []"
    and cam: "objects (snd no_viewport_auto) ''BakeCamera'' = Some example_camera"
    and ar: "areas (snd no_viewport_auto) = [\<lparr>area_type = ''IMAGE_EDITOR'', region_types = [''WINDOW'']\<rparr>]"
    by blast
  note exec = baker_execute_running [OF run, folded no_viewport_auto_def]
  from exec have props: "\<not> should_cancel (props (snd no_viewport_auto))"
    "auto_bake (props (snd no_viewport_auto))" "progress (props (snd no_viewport_auto)) = 0"
    "is_baking (props (snd no_viewport_auto))"
    and idx: "current_angle_index (fst no_viewport_auto) = 0"
    and len: "length (camera_angles (fst no_viewport_auto)) = 12"
    and tm: "timers (snd no_viewport_auto) = [(0, 0.1)]"
    by (auto simp: no_viewport_world_def example_world_def example_props_def
        new_EEVEE_OT_TextureBaker_def twelve_angles)
  have nov: "\<forall>a \<in> set (areas (snd no_viewport_auto)). area_type a \<noteq> ''VIEW_3D''"
    by (simp add: ar)
  define a where "a = camera_angles (fst no_viewport_auto) ! 0"
  define res where "res = render_view p (snd no_viewport_auto) (fst a) (snd a) 1 12"
  note rv = render_view_raises [OF p(2) ob p(3) cam example_camera_fov p(4) nov,
      where v = "fst a" and h = "snd a" and cnt = 1 and tot = 12, folded res_def]
  have first: "baker_modal (fst no_viewport_auto) (snd no_viewport_auto) ''TIMER'' =
      (Raised (RuntimeError ''No 3D viewport found''),
       (fst no_viewport_auto)\<lparr>projector := Some (fst (snd res))\<rparr>, snd (snd res))"
    using props idx len p(1) rv(1)
    by (simp add: baker_modal_def Let_def split_beta a_def [symmetric] res_def [symmetric])
  define self1 where "self1 = (fst no_viewport_auto)\<lparr>projector := Some (fst (snd res))\<rparr>"
  define w1 where "w1 = snd (snd res)"
  from rv(7) obtain ob1 cam1 where
    ob1: "objects w1 ''Cube'' = Some ob1" "bound_box ob1 \<noteq> []"
    and cam1: "objects w1 ''BakeCamera'' = Some cam1" "2 * tan (cam_angle cam1 / 2) \<noteq> 0"
    unfolding w1_def by blast
  have nov1: "\<forall>a \<in> set (areas w1). area_type a \<noteq> ''VIEW_3D''"
    using rv(5) by (simp add: w1_def ar)
  have p1: "obj (fst (snd res)) = Some ''Cube''" "camera (fst (snd res)) = Some ''BakeCamera''"
    "view3d_cache (fst (snd res)) = None"
    using rv(2,3,4) p by simp_all
  have props1: "props w1 = props (snd no_viewport_auto)"
    using rv(6) by (simp add: w1_def)
  have "fst (render_view (fst (snd res)) w1 v h c t) = Raised (RuntimeError ''No 3D viewport found'')"
    for v h c t
    by (rule render_view_raises(1) [OF p1(1) ob1 p1(2) cam1 p1(3) nov1])
  then have second: "fst (baker_modal self1 w1 ''TIMER'') = Raised (RuntimeError ''No 3D viewport found'')"
    using props idx len
    by (simp add: baker_modal_def Let_def split_beta self1_def props1)
  show ?thesis
    using run tm second props idx
    by (simp add: first self1_def [symmetric] w1_def [symmetric] props1)
       (simp add: self1_def)
qed

section \<open>The settings of a bake run\<close>

text \<open>
  C8. No operation of the projector or of the bake operator assigns to the
  \<open>ProjectionSettings\<close> object: the projector every operation leaves behind holds the
  settings it was given, field for field. (\<open>create_uv_map\<close> and \<open>create_bake_image\<close>
  do not change the projector at all.) The projector \<open>execute\<close> builds holds the
  settings constructed from the properties, and \<open>modal\<close> and the operator's cleanup
  keep them. The \<open>settings\<close> that \<open>project_texture\<close> assigns to are the host's
  image paint settings.
\<close>

theorem settings_never_mutated:
  "(fst (new_TextureProjector st w) = Returned q \<longrightarrow> settings q = st) \<and>
   settings (snd (view3d_context p w)) = settings p \<and>
   settings (fst (cleanup p w)) = settings p \<and>
   settings (fst (snd (setup_material_nodes p w))) = settings p \<and>
   settings (fst (setup_camera p w)) = settings p \<and>
   settings (snd (calculate_optimal_distance p w args kwargs)) = settings p \<and>
   settings (snd (get_view_parameters p w args kwargs)) = settings p \<and>
   settings (fst (snd (position_camera p w h v))) = settings p \<and>
   settings (fst (snd (setup_viewport p w))) = settings p \<and>
   settings (fst (snd (create_temp_render p w))) = settings p \<and>
   settings (fst (snd (project_texture p w a c t))) = settings p \<and>
   settings (fst (snd (process p w))) = settings p \<and>
   operator_settings (fst (snd (baker_modal self w ev))) = operator_settings self \<and>
   operator_settings (fst (baker_cleanup self w)) = operator_settings self \<and>
   (operator_settings (fst (snd (baker_execute self w))) = operator_settings self \<or>
    operator_settings (fst (snd (baker_execute self w))) =
      Some (new_ProjectionSettings (p_resolution (props w)) (file_name (props w))
              (abspath w (output_directory (props w))) (p_seam_bleed (props w))))"
  using baker_execute_settings [of self w] new_TextureProjector_settings [of st w q]
  by (simp add: baker_modal_settings)

theorem settings_never_mutated_witness:
  "fst (new_TextureProjector example_settings example_world) =
     Returned (example_projector\<lparr>obj := None, bake_image := None, camera := None\<rparr>) \<and>
   settings (fst (snd (process example_projector example_world))) = example_settings \<and>
   operator_settings (fst (snd (baker_modal (fst example_auto) (snd example_auto) ''TIMER'')))
     = operator_settings (fst example_auto)"
proof -
  have "fst (new_TextureProjector example_settings example_world) =
     Returned (example_projector\<lparr>obj := None, bake_image := None, camera := None\<rparr>)"
    by (simp add: new_TextureProjector_def setup_directories_def example_settings_def
        new_ProjectionSettings_def example_world_def example_projector_def makedirs_def
        dirname_def path_join_def Let_def)
  moreover have "settings example_projector = example_settings"
    by (simp add: example_projector_def)
  ultimately show ?thesis
    using settings_never_mutated
      [where st = example_settings and w = example_world and p = example_projector
         and q = "example_projector\<lparr>obj := None, bake_image := None, camera := None\<rparr>"
         and self = "fst example_auto" and ev = "''TIMER''" and args = "[]" and kwargs = "[]"
         and h = 0 and v = None and a = PNone and c = 1 and t = 1]
      settings_never_mutated
      [where w = "snd example_auto" and self = "fst example_auto" and ev = "''TIMER''"
         and st = example_settings and p = example_projector and q = example_projector
         and args = "[]" and kwargs = "[]" and h = 0 and v = None and a = PNone and c = 1
         and t = 1]
    by simp
qed

end
